theory Spec2Isabelle
  imports Complex_Main "HOL-Library.AList" "HOL-Library.Char_ord" "HOL-Library.List_Lexorder"
begin

section \<open>Python values\<close>

text \<open>
  The program is dynamically typed Python: raw records, API payloads and cache files are
  JSON values, the in-memory datasets are dicts. One datatype holds them all. A dict is an
  association list in insertion order, written with \<open>AList.update\<close> (replace the value of a
  key in place, or append the pair) and read with \<open>map_of\<close>. Key equality is equality of
  the values; Python also identifies the keys \<open>1\<close>, \<open>1.0\<close> and \<open>True\<close>, which
  string keys (all keys of a parsed JSON object) never meet.

  \<open>VTimestamp y m d\<close> is a pandas Timestamp at midnight of a calendar day.

  A float is a real number or one of the three special values. Rounding of finite results
  to 53 bits and signed zeros are not modelled: a finite float is the exact real. The range
  of a double is modelled where the program can leave it, in \<open>float()\<close>.
\<close>

datatype pyfloat = Fin real | PosInf | NegInf | NaN

datatype pyval =
    VNone
  | VBool bool
  | VInt int
  | VFloat pyfloat
  | VStr string
  | VList "pyval list"
  | VDict "(pyval \<times> pyval) list"
  | VTimestamp nat nat nat

type_synonym pydict = "(pyval \<times> pyval) list"

text \<open>The exceptions the modelled code can raise or catch.\<close>

datatype exn =
    ConnectTimeout
  | ConnectionFailure
  | HTTPError nat
  | JSONDecodeError
  | AttributeError
  | TypeError
  | KeyError
  | IndexError
  | ValueError
  | OverflowError
  | ZeroDivisionError

text \<open>A computation that may raise: \<open>Inl\<close> is the exception, \<open>Inr\<close> the value.\<close>

definition bind_exn :: "exn + 'a \<Rightarrow> ('a \<Rightarrow> exn + 'b) \<Rightarrow> exn + 'b" where
  "bind_exn m f = (case m of Inl e \<Rightarrow> Inl e | Inr x \<Rightarrow> f x)"

text \<open>\<open>bool(v)\<close>, the truth value an \<open>if\<close> or \<open>not\<close> takes of a value.\<close>

fun py_truthy :: "pyval \<Rightarrow> bool" where
  "py_truthy VNone = False"
| "py_truthy (VBool b) = b"
| "py_truthy (VInt i) = (i \<noteq> 0)"
| "py_truthy (VFloat f) = (f \<noteq> Fin 0)"
| "py_truthy (VStr s) = (s \<noteq> [])"
| "py_truthy (VList xs) = (xs \<noteq> [])"
| "py_truthy (VDict d) = (d \<noteq> [])"
| "py_truthy (VTimestamp y m d) = True"

text \<open>\<open>d.get(k)\<close> on a dict: the value, or \<open>None\<close>.\<close>

definition dict_get :: "pydict \<Rightarrow> string \<Rightarrow> pyval" where
  "dict_get d k = (case map_of d (VStr k) of None \<Rightarrow> VNone | Some v \<Rightarrow> v)"

subsection \<open>Float arithmetic\<close>

fun fneg :: "pyfloat \<Rightarrow> pyfloat" where
  "fneg (Fin a) = Fin (- a)"
| "fneg PosInf = NegInf"
| "fneg NegInf = PosInf"
| "fneg NaN = NaN"

fun fadd :: "pyfloat \<Rightarrow> pyfloat \<Rightarrow> pyfloat" where
  "fadd NaN _ = NaN"
| "fadd _ NaN = NaN"
| "fadd (Fin a) (Fin b) = Fin (a + b)"
| "fadd PosInf NegInf = NaN"
| "fadd NegInf PosInf = NaN"
| "fadd PosInf _ = PosInf"
| "fadd _ PosInf = PosInf"
| "fadd NegInf _ = NegInf"
| "fadd _ NegInf = NegInf"

definition fsub :: "pyfloat \<Rightarrow> pyfloat \<Rightarrow> pyfloat" where
  "fsub a b = fadd a (fneg b)"

text \<open>The sign of an infinite product or quotient: \<open>pos\<close> tells whether it is positive.\<close>

definition inf_of :: "bool \<Rightarrow> pyfloat" where
  "inf_of pos = (if pos then PosInf else NegInf)"

fun fmul :: "pyfloat \<Rightarrow> pyfloat \<Rightarrow> pyfloat" where
  "fmul NaN _ = NaN"
| "fmul _ NaN = NaN"
| "fmul (Fin a) (Fin b) = Fin (a * b)"
| "fmul (Fin a) PosInf = (if a = 0 then NaN else inf_of (0 < a))"
| "fmul (Fin a) NegInf = (if a = 0 then NaN else inf_of (a < 0))"
| "fmul PosInf (Fin b) = (if b = 0 then NaN else inf_of (0 < b))"
| "fmul NegInf (Fin b) = (if b = 0 then NaN else inf_of (b < 0))"
| "fmul PosInf PosInf = PosInf"
| "fmul NegInf NegInf = PosInf"
| "fmul PosInf NegInf = NegInf"
| "fmul NegInf PosInf = NegInf"

text \<open>
  \<open>a / b\<close> on floats raises \<open>ZeroDivisionError\<close> when the divisor is zero, whatever the
  dividend; otherwise it follows IEEE 754.
\<close>

fun fdiv :: "pyfloat \<Rightarrow> pyfloat \<Rightarrow> exn + pyfloat" where
  "fdiv a (Fin b) =
     (if b = 0 then Inl ZeroDivisionError
      else case a of
          Fin x \<Rightarrow> Inr (Fin (x / b))
        | PosInf \<Rightarrow> Inr (inf_of (0 < b))
        | NegInf \<Rightarrow> Inr (inf_of (b < 0))
        | NaN \<Rightarrow> Inr NaN)"
| "fdiv _ NaN = Inr NaN"
| "fdiv (Fin x) _ = Inr (Fin 0)"
| "fdiv _ _ = Inr NaN"

text \<open>
  \<open>x > k\<close> and \<open>x <= k\<close> for a float and an integer literal. Every comparison with
  NaN is false.
\<close>

fun fgt :: "pyfloat \<Rightarrow> int \<Rightarrow> bool" where
  "fgt (Fin a) k = (real_of_int k < a)"
| "fgt PosInf k = True"
| "fgt NegInf k = False"
| "fgt NaN k = False"

fun fle :: "pyfloat \<Rightarrow> int \<Rightarrow> bool" where
  "fle (Fin a) k = (a \<le> real_of_int k)"
| "fle PosInf k = False"
| "fle NegInf k = True"
| "fle NaN k = False"

subsection \<open>The built-in float()\<close>

text \<open>
  \<open>float(s)\<close> on a string is a parameter of the model: a reading \<open>rd\<close> gives
  the float that Python reads in \<open>s\<close>, or \<open>None\<close> when \<open>float(s)\<close> raises
  \<open>ValueError\<close>. Python strips the white space of Unicode around the text and reads the
  decimal digits of every script; the functions that convert raw values take the reading as
  their first argument, and the theorems about them hold for every reading.
\<close>

type_synonym reading = "string \<Rightarrow> pyfloat option"

text \<open>
  What \<open>float(s)\<close> reads in a string of ASCII characters is \<open>ascii_float\<close>, the
  reading that the concrete records below are evaluated with. Between white space (the six
  characters 9 to 13 and 32) the text is
  \<^verbatim>\<open>[sign] (digitpart [. [digitpart]] | . digitpart) [(e|E) [sign] digitpart]\<close>,
  or, in any letter case, \<^verbatim>\<open>[sign] (inf | infinity | nan)\<close>; a digitpart is digits
  with single underscores between them. A decimal whose magnitude reaches
  \<open>2^1024 - 2^970\<close> rounds to an infinity. \<open>ascii_float\<close> reads nothing in a string
  with a character outside ASCII, where Python may (a no-break space around the digits is
  stripped): such strings are left to the parameter.
\<close>

definition is_space :: "char \<Rightarrow> bool" where
  "is_space c = (of_char c \<in> set [9, 10, 11, 12, 13, 32 :: nat])"

definition strip :: "string \<Rightarrow> string" where
  "strip s = rev (dropWhile is_space (rev (dropWhile is_space s)))"

definition is_digit :: "char \<Rightarrow> bool" where
  "is_digit c = (48 \<le> (of_char c :: nat) \<and> (of_char c :: nat) \<le> 57)"

definition digit_val :: "char \<Rightarrow> nat" where
  "digit_val c = of_char c - 48"

definition lower_char :: "char \<Rightarrow> char" where
  "lower_char c =
     (if 65 \<le> (of_char c :: nat) \<and> (of_char c :: nat) \<le> 90 then char_of (of_char c + 32 :: nat) else c)"

text \<open>
  A digitpart: \<open>Some\<close> of its digits (underscores dropped), or \<open>None\<close> when the text is
  not one. \<open>prev\<close> tells whether the character before was a digit.
\<close>

fun digitpart_from :: "bool \<Rightarrow> string \<Rightarrow> nat list option" where
  "digitpart_from prev [] = (if prev then Some [] else None)"
| "digitpart_from prev (c # cs) =
     (if is_digit c then map_option (\<lambda>ds. digit_val c # ds) (digitpart_from True cs)
      else if c = CHR ''_'' \<and> prev \<and> cs \<noteq> [] then digitpart_from False cs
      else None)"

definition digitpart :: "string \<Rightarrow> nat list option" where
  "digitpart s = digitpart_from False s"

definition nat_of_digits :: "nat list \<Rightarrow> nat" where
  "nat_of_digits ds = foldl (\<lambda>acc d. 10 * acc + d) 0 ds"

text \<open>An optional sign in front: the sign (\<open>True\<close> for minus) and the rest.\<close>

fun split_sign :: "string \<Rightarrow> bool \<times> string" where
  "split_sign [] = (False, [])"
| "split_sign (c # cs) =
     (if c = CHR ''-'' then (True, cs) else if c = CHR ''+'' then (False, cs) else (False, c # cs))"

text \<open>The mantissa \<open>digitpart [. [digitpart]] | . digitpart\<close>: its digits and the number
  of them after the point.\<close>

definition mantissa :: "string \<Rightarrow> (nat list \<times> nat) option" where
  "mantissa s =
     (let ip = takeWhile (\<lambda>c. c \<noteq> CHR ''.'') s;
          rest = dropWhile (\<lambda>c. c \<noteq> CHR ''.'') s
      in case rest of
           [] \<Rightarrow> map_option (\<lambda>ds. (ds, 0)) (digitpart ip)
         | _ # fp \<Rightarrow>
             (if ip = [] \<and> fp = [] then None
              else case (if ip = [] then Some [] else digitpart ip,
                         if fp = [] then Some [] else digitpart fp) of
                  (Some ds, Some fs) \<Rightarrow> Some (ds @ fs, length fs)
                | _ \<Rightarrow> None))"

text \<open>The exponent \<open>[sign] digitpart\<close> after the \<open>e\<close>.\<close>

definition exponent :: "string \<Rightarrow> int option" where
  "exponent s =
     (case split_sign s of (neg, ds) \<Rightarrow>
        map_option (\<lambda>d. if neg then - int (nat_of_digits d) else int (nat_of_digits d))
          (digitpart ds))"

definition is_e :: "char \<Rightarrow> bool" where
  "is_e c = (c = CHR ''e'' \<or> c = CHR ''E'')"

text \<open>The exact value of a decimal: mantissa digits, digits after the point, exponent.\<close>

definition decimal_value :: "nat list \<Rightarrow> nat \<Rightarrow> int \<Rightarrow> real" where
  "decimal_value ds k e =
     (let p = e - int k
      in if 0 \<le> p then real (nat_of_digits ds) * 10 ^ nat p
         else real (nat_of_digits ds) / 10 ^ nat (- p))"

definition double_limit :: real where
  "double_limit = 2 ^ 1024 - 2 ^ 970"

definition round_decimal :: "bool \<Rightarrow> real \<Rightarrow> pyfloat" where
  "round_decimal neg x =
     (if double_limit \<le> x then inf_of (\<not> neg) else Fin (if neg then - x else x))"

definition float_of_decimal :: "bool \<Rightarrow> string \<Rightarrow> pyfloat option" where
  "float_of_decimal neg s =
     (let m = takeWhile (\<lambda>c. \<not> is_e c) s;
          rest = dropWhile (\<lambda>c. \<not> is_e c) s
      in case mantissa m of
           None \<Rightarrow> None
         | Some (ds, k) \<Rightarrow>
             (case rest of
                [] \<Rightarrow> Some (round_decimal neg (decimal_value ds k 0))
              | _ # es \<Rightarrow>
                  map_option (\<lambda>e. round_decimal neg (decimal_value ds k e)) (exponent es)))"

definition ascii_float :: reading where
  "ascii_float s =
     (case split_sign (strip s) of (neg, body) \<Rightarrow>
        (let w = map lower_char body
         in if w = ''inf'' \<or> w = ''infinity'' then Some (inf_of (\<not> neg))
            else if w = ''nan'' then Some NaN
            else float_of_decimal neg body))"

text \<open>The conversion of an integer to a float: \<open>OverflowError\<close> beyond the range of a double.\<close>

definition int_to_float :: "int \<Rightarrow> exn + pyfloat" where
  "int_to_float i =
     (if double_limit \<le> \<bar>real_of_int i\<bar> then Inl OverflowError else Inr (Fin (real_of_int i)))"

definition bool_to_float :: "bool \<Rightarrow> pyfloat" where
  "bool_to_float b = Fin (if b then 1 else 0)"

text \<open>
  \<open>float(v)\<close>: \<open>None\<close> and containers raise \<open>TypeError\<close>, a string that is not read
  \<open>ValueError\<close>, an integer too large for a double \<open>OverflowError\<close>.
\<close>

fun py_float :: "reading \<Rightarrow> pyval \<Rightarrow> exn + pyfloat" where
  "py_float rd VNone = Inl TypeError"
| "py_float rd (VBool b) = Inr (bool_to_float b)"
| "py_float rd (VInt i) = int_to_float i"
| "py_float rd (VFloat f) = Inr f"
| "py_float rd (VStr s) = (case rd s of None \<Rightarrow> Inl ValueError | Some f \<Rightarrow> Inr f)"
| "py_float rd (VList _) = Inl TypeError"
| "py_float rd (VDict _) = Inl TypeError"
| "py_float rd (VTimestamp _ _ _) = Inl TypeError"

section \<open>BankMetricsCalculator\<close>

text \<open>
  \<^verbatim>\<open>safe_float\<close>: \<^verbatim>\<open>float(value) if value is not None else 0.0\<close> inside
  \<^verbatim>\<open>try ... except (ValueError, TypeError): return 0.0\<close>. Any other exception of
  \<open>float\<close> passes through.
\<close>

definition safe_float :: "reading \<Rightarrow> pyval \<Rightarrow> exn + pyfloat" where
  "safe_float rd v =
     (case (if v \<noteq> VNone then py_float rd v else Inr (Fin 0)) of
        Inl e \<Rightarrow> (if e = ValueError \<or> e = TypeError then Inr (Fin 0) else Inl e)
      | Inr f \<Rightarrow> Inr f)"

subsection \<open>Report dates\<close>

text \<open>
  \<^verbatim>\<open>pd.to_datetime(v, format='%Y%m%d')\<close>. The model reads the strings the pipeline
  handles, eight digits that spell a calendar day a nanosecond Timestamp can hold
  (1677-09-22 to 2262-04-11), and raises \<open>ValueError\<close> on every other string. A value
  that is not a string is not modelled more closely than by \<open>TypeError\<close>: pandas raises at
  the conversion or at the comparison that follows for most of them, and converts a few (an
  integer spelled the same way, NaN); no theorem below is about such a record.
\<close>

definition leap_year :: "nat \<Rightarrow> bool" where
  "leap_year y = (y mod 4 = 0 \<and> (y mod 100 \<noteq> 0 \<or> y mod 400 = 0))"

definition days_in_month :: "nat \<Rightarrow> nat \<Rightarrow> nat" where
  "days_in_month y m =
     (if m = 2 then (if leap_year y then 29 else 28)
      else if m = 4 \<or> m = 6 \<or> m = 9 \<or> m = 11 then 30
      else 31)"

text \<open>A date as one number, \<open>yyyymmdd\<close>: the calendar order is the order of these.\<close>

definition date_num :: "nat \<times> nat \<times> nat \<Rightarrow> nat" where
  "date_num ymd = (case ymd of (y, m, d) \<Rightarrow> y * 10000 + m * 100 + d)"

definition valid_date :: "nat \<times> nat \<times> nat \<Rightarrow> bool" where
  "valid_date ymd =
     (case ymd of (y, m, d) \<Rightarrow>
        1 \<le> m \<and> m \<le> 12 \<and> 1 \<le> d \<and> d \<le> days_in_month y m \<and>
        16770922 \<le> date_num ymd \<and> date_num ymd \<le> 22620411)"

definition parse_yyyymmdd :: "string \<Rightarrow> (nat \<times> nat \<times> nat) option" where
  "parse_yyyymmdd s =
     (if length s = 8 \<and> list_all is_digit s then
        (let ds = map digit_val s;
             ymd = (nat_of_digits (take 4 ds), nat_of_digits (take 2 (drop 4 ds)),
                    nat_of_digits (drop 6 ds))
         in if valid_date ymd then Some ymd else None)
      else None)"

fun to_datetime :: "pyval \<Rightarrow> exn + (nat \<times> nat \<times> nat)" where
  "to_datetime (VStr s) = (case parse_yyyymmdd s of None \<Rightarrow> Inl ValueError | Some ymd \<Rightarrow> Inr ymd)"
| "to_datetime _ = Inl TypeError"

subsection \<open>Base extraction\<close>

text \<open>
  A metrics row is the dict the calculator builds for one record: metric name to value.
  \<^verbatim>\<open>_extract_basic_metrics\<close> is one dict literal, \<open>Bank\<close>, \<open>Date\<close> and then 49
  entries \<^verbatim>\<open>'name': self.safe_float(financial.get('CODE'))\<close>, which \<open>base_fields\<close>
  lists in the literal's order. (A leading underscore is not an Isabelle name: the private
  methods are named without it.)
\<close>

type_synonym row = "(string \<times> pyval) list"

definition base_fields :: "(string \<times> string) list" where
  "base_fields =
     [(''Total Assets'', ''ASSET''),
      (''Total Deposits'', ''DEP''),
      (''Total Loans and Leases'', ''LNLSGR''),
      (''Net Loans and Leases'', ''LNLSNET''),
      (''Total Securities'', ''SC''),
      (''Real Estate Loans'', ''LNRE''),
      (''Loans to Residential Properties'', ''LNRERES''),
      (''Multifamily'', ''LNREMULT''),
      (''Farmland Real Estate Loans'', ''LNREAG''),
      (''Loans to Nonresidential Properties'', ''LNRENRES''),
      (''Owner-Occupied Nonresidential Properties Loans'', ''LNRENROW''),
      (''Non-OOC Nonresidential Properties Loans'', ''LNRENROT''),
      (''RE Construction and Land Development'', ''LNRECONS''),
      (''1-4 Family Residential Construction and Land Development Loans'', ''LNRECNFM''),
      (''Other Construction, All Land Development and Other Land Loans'', ''LNRECNOT''),
      (''Commercial Real Estate Loans not Secured by Real Estate'', ''LNCOMRE''),
      (''Commercial and Industrial Loans'', ''LNCI''),
      (''Agriculture Loans'', ''LNAG''),
      (''Credit Cards'', ''LNCRCD''),
      (''Consumer Loans'', ''LNCONOTH''),
      (''Allowance for Credit Loss'', ''LNATRES''),
      (''Past Due 30-89 Days'', ''P3ASSET''),
      (''Past Due 90+ Days'', ''P9ASSET''),
      (''Tier 1 (Core) Capital'', ''RBCT1J''),
      (''Total Charge-Offs'', ''DRLNLS''),
      (''Total Recoveries'', ''CRLNLS''),
      (''Total Loans and Leases Net Charge-Offs Quarterly'', ''NTLNLSQ''),
      (''Net Income'', ''NETINC''),
      (''Common Equity Tier 1 Before Adjustments'', ''CT1BADJ''),
      (''Bank Equity Capital'', ''EQ''),
      (''Perpetual Preferred Stock'', ''EQPP''),
      (''Net Interest Margin'', ''NIMY''),
      (''Earning Assets / Total Assets'', ''ERNASTR''),
      (''Nonperforming Assets / Total Assets'', ''NPERFV''),
      (''Assets Past Due 30-89 Days / Total Assets'', ''P3ASSETR''),
      (''Assets Past Due 90+ Days / Total Assets'', ''P9ASSETR''),
      (''Net Charge-Offs / Total Loans & Leases'', ''NTLNLSR''),
      (''Earnings Coverage of Net Loan Charge-Offs'', ''IDERNCVR''),
      (''Loan and Lease Loss Provision to Net Charge-Offs'', ''ELNANTR''),
      (''Loss Allowance / Total Loans & Leases'', ''LNATRESR''),
      (''Loss Allowance to Noncurrent Loans and Leases'', ''LNRESNCR''),
      (''Noncurrent Loans / Total Loans'', ''NCLNLSR''),
      (''Net Loans and Leases to Deposits'', ''LNLSDEPR''),
      (''Net Loans and Leases to Assets'', ''LNLSNTV''),
      (''Return on Assets'', ''ROA''),
      (''Return on Equity'', ''ROE''),
      (''Leverage (Core Capital) Ratio'', ''RBC1AAJ''),
      (''Total Risk-Based Capital Ratio'', ''RBCRWAJ''),
      (''Efficiency Ratio'', ''EEFFR'')]"

text \<open>The entries are evaluated in order; the first \<open>safe_float\<close> that raises ends it.\<close>

fun extract_fields :: "reading \<Rightarrow> pydict \<Rightarrow> (string \<times> string) list \<Rightarrow> exn + row" where
  "extract_fields rd financial [] = Inr []"
| "extract_fields rd financial ((m, c) # fs) =
     bind_exn (safe_float rd (dict_get financial c)) (\<lambda>f.
     bind_exn (extract_fields rd financial fs) (\<lambda>r.
     Inr ((m, VFloat f) # r)))"

definition extract_basic_metrics :: "reading \<Rightarrow> pyval \<Rightarrow> pydict \<Rightarrow> exn + row" where
  "extract_basic_metrics rd bank_name financial =
     bind_exn (extract_fields rd financial base_fields) (\<lambda>r.
     Inr ((''Bank'', bank_name) # (''Date'', dict_get financial ''REPDTE'') # r))"

subsection \<open>Capital base, ratios, growth rate, charge-offs\<close>

text \<open>
  \<^verbatim>\<open>metrics['name']\<close> read as an operand of float arithmetic: \<open>KeyError\<close> when the
  key is absent. The rows the calculator reads hold floats under these keys; for any
  other value the arithmetic on it is modelled as \<open>TypeError\<close>.
\<close>

definition metric_float :: "row \<Rightarrow> string \<Rightarrow> exn + pyfloat" where
  "metric_float metrics k =
     (case map_of metrics k of
        None \<Rightarrow> Inl KeyError
      | Some (VFloat f) \<Rightarrow> Inr f
      | Some (VInt i) \<Rightarrow> int_to_float i
      | Some (VBool b) \<Rightarrow> Inr (bool_to_float b)
      | Some _ \<Rightarrow> Inl TypeError)"

text \<open>
  \<^verbatim>\<open>_calculate_capital_base\<close> returns the pair (CECL transition amount, capital
  base). Before 2019-01-01 the amount is the integer \<open>0\<close>.
\<close>

definition calculate_capital_base :: "row \<Rightarrow> pydict \<Rightarrow> exn + (pyval \<times> pyfloat)" where
  "calculate_capital_base metrics financial =
     bind_exn (metric_float metrics ''Common Equity Tier 1 Before Adjustments'') (\<lambda>ct1badj.
     bind_exn (metric_float metrics ''Bank Equity Capital'') (\<lambda>eq.
     bind_exn (metric_float metrics ''Perpetual Preferred Stock'') (\<lambda>eqpp.
     bind_exn (metric_float metrics ''Tier 1 (Core) Capital'') (\<lambda>tier1_capital.
     bind_exn (metric_float metrics ''Allowance for Credit Loss'') (\<lambda>allowance_for_credit_loss.
     bind_exn (to_datetime (dict_get financial ''REPDTE'')) (\<lambda>date.
       if date_num (2019, 1, 1) \<le> date_num date then
         (let cecl_transition_amount = fadd (fsub ct1badj eq) eqpp;
              capital_base = fsub (fadd tier1_capital allowance_for_credit_loss) cecl_transition_amount
          in Inr (VFloat cecl_transition_amount, capital_base))
       else
         Inr (VInt 0, fadd tier1_capital allowance_for_credit_loss)))))))"

text \<open>\<^verbatim>\<open>metrics[target] = (metrics[source] / capital_base) * 100\<close>\<close>

definition set_ratio :: "string \<Rightarrow> string \<Rightarrow> pyfloat \<Rightarrow> row \<Rightarrow> exn + row" where
  "set_ratio target source capital_base metrics =
     bind_exn (metric_float metrics source) (\<lambda>x.
     bind_exn (fdiv x capital_base) (\<lambda>q.
     Inr (AList.update target (VFloat (fmul q (Fin 100))) metrics)))"

definition commercial_re :: "row \<Rightarrow> exn + pyfloat" where
  "commercial_re metrics =
     bind_exn (metric_float metrics ''RE Construction and Land Development'') (\<lambda>a.
     bind_exn (metric_float metrics ''Multifamily'') (\<lambda>b.
     bind_exn (metric_float metrics ''Loans to Nonresidential Properties'') (\<lambda>c.
     bind_exn (metric_float metrics ''Commercial Real Estate Loans not Secured by Real Estate'') (\<lambda>d.
     Inr (fadd (fadd (fadd a b) c) d)))))"

text \<open>
  \<^verbatim>\<open>_calculate_capital_ratios\<close> updates the row in place; the model returns the
  updated row. The two branches store their keys in the order of the source.
\<close>

definition calculate_capital_ratios :: "row \<Rightarrow> pyfloat \<Rightarrow> exn + row" where
  "calculate_capital_ratios metrics capital_base =
     (if fgt capital_base 1000000 then
        bind_exn (set_ratio ''Real Estate Loans to Tier 1 + ACL'' ''Real Estate Loans''
                    capital_base metrics) (\<lambda>m1.
        bind_exn (set_ratio ''RE Construction and Land Development to Tier 1 + ACL''
                    ''RE Construction and Land Development'' capital_base m1) (\<lambda>m2.
        bind_exn (set_ratio ''C&I Loans to Tier 1 + ACL'' ''Commercial and Industrial Loans''
                    capital_base m2) (\<lambda>m3.
        bind_exn (set_ratio ''Agriculture Loans to Tier 1 + ACL'' ''Agriculture Loans''
                    capital_base m3) (\<lambda>m4.
        bind_exn (set_ratio ''Credit Cards to Tier 1 + ACL'' ''Credit Cards''
                    capital_base m4) (\<lambda>m5.
        bind_exn (commercial_re m5) (\<lambda>cre.
        bind_exn (fdiv cre capital_base) (\<lambda>q.
        Inr (AList.update ''Commercial RE to Tier 1 + ACL'' (VFloat (fmul q (Fin 100))) m5))))))))
      else
        Inr (AList.update ''Credit Cards to Tier 1 + ACL'' VNone
            (AList.update ''Commercial RE to Tier 1 + ACL'' VNone
            (AList.update ''Agriculture Loans to Tier 1 + ACL'' VNone
            (AList.update ''C&I Loans to Tier 1 + ACL'' VNone
            (AList.update ''RE Construction and Land Development to Tier 1 + ACL'' VNone
            (AList.update ''Real Estate Loans to Tier 1 + ACL'' VNone metrics)))))))"




subsection \<open>calculate_metrics\<close>

text \<open>
  \<^verbatim>\<open>sorted(financials, key=lambda x: x['REPDTE'])\<close>. The key of every record is taken
  first: \<open>KeyError\<close> on a dict without the key, \<open>TypeError\<close> on a record that is not a
  dict. Keys that are all strings are put in order by the stable sort, strings comparing by
  code point. Keys of other types are not modelled: with two records or more the model
  raises \<open>TypeError\<close>, as Python does for keys of mixed types.
\<close>

fun repdte_key :: "pyval \<Rightarrow> exn + (pyval \<times> pydict)" where
  "repdte_key (VDict d) =
     (case map_of d (VStr ''REPDTE'') of None \<Rightarrow> Inl KeyError | Some k \<Rightarrow> Inr (k, d))"
| "repdte_key _ = Inl TypeError"

fun repdte_keys :: "pyval list \<Rightarrow> exn + (pyval \<times> pydict) list" where
  "repdte_keys [] = Inr []"
| "repdte_keys (x # xs) =
     bind_exn (repdte_key x) (\<lambda>kd.
     bind_exn (repdte_keys xs) (\<lambda>kds.
     Inr (kd # kds)))"

fun is_str :: "pyval \<Rightarrow> bool" where
  "is_str (VStr _) = True"
| "is_str _ = False"

fun str_of :: "pyval \<Rightarrow> string" where
  "str_of (VStr s) = s"
| "str_of _ = []"

definition sorted_by_repdte :: "pyval list \<Rightarrow> exn + pydict list" where
  "sorted_by_repdte financials =
     bind_exn (repdte_keys financials) (\<lambda>kds.
       if length kds \<le> 1 then Inr (map snd kds)
       else if list_all (\<lambda>kd. is_str (fst kd)) kds
         then Inr (map snd (sort_key (\<lambda>kd. str_of (fst kd)) kds))
       else Inl TypeError)"







subsection \<open>Vocabulary of the calculator's properties\<close>

text \<open>A float other than NaN and the infinities.\<close>

definition is_finite :: "pyfloat \<Rightarrow> bool" where
  "is_finite f = (case f of Fin _ \<Rightarrow> True | _ \<Rightarrow> False)"

text \<open>A raw value that is an integer beyond the range of a double.\<close>

definition float_overflows :: "pyval \<Rightarrow> bool" where
  "float_overflows v = (case v of VInt i \<Rightarrow> double_limit \<le> \<bar>real_of_int i\<bar> | _ \<Rightarrow> False)"

text \<open>
  A raw value that is itself NaN or an infinity, or a string that \<open>float()\<close> reads as one
  (\<open>nan\<close>, \<open>inf\<close>, or a decimal beyond the range of a double).
\<close>

definition reads_as_special :: "reading \<Rightarrow> pyval \<Rightarrow> bool" where
  "reads_as_special rd v =
     (case v of
        VFloat f \<Rightarrow> \<not> is_finite f
      | VStr s \<Rightarrow> (case rd s of None \<Rightarrow> False | Some f \<Rightarrow> \<not> is_finite f)
      | _ \<Rightarrow> False)"

text \<open>
  A raw value that is absent or null, a string in which \<open>float()\<close> reads no number, or
  not a scalar.
\<close>

definition unreadable :: "reading \<Rightarrow> pyval \<Rightarrow> bool" where
  "unreadable rd v =
     (case v of
        VNone \<Rightarrow> True
      | VStr s \<Rightarrow> rd s = None
      | VList _ \<Rightarrow> True
      | VDict _ \<Rightarrow> True
      | VTimestamp _ _ _ \<Rightarrow> True
      | _ \<Rightarrow> False)"

text \<open>The cell of a metric in the row a computation returned, if it returned one.\<close>

definition result_cell :: "exn + row \<Rightarrow> string \<Rightarrow> pyval option" where
  "result_cell r k = (case r of Inl _ \<Rightarrow> None | Inr metrics \<Rightarrow> map_of metrics k)"

text \<open>The five capital-adequacy ratios and the composite commercial real estate ratio.\<close>

definition capital_ratio_names :: "string list" where
  "capital_ratio_names =
     [''Real Estate Loans to Tier 1 + ACL'',
      ''RE Construction and Land Development to Tier 1 + ACL'',
      ''C&I Loans to Tier 1 + ACL'',
      ''Agriculture Loans to Tier 1 + ACL'',
      ''Credit Cards to Tier 1 + ACL'',
      ''Commercial RE to Tier 1 + ACL'']"

text \<open>
  A record the calculator processes without raising: its report date is a date and none of
  its base fields is an integer beyond the range of a double.
\<close>

definition clean_record :: "pydict \<Rightarrow> bool" where
  "clean_record d =
     ((case to_datetime (dict_get d ''REPDTE'') of Inl _ \<Rightarrow> False | Inr _ \<Rightarrow> True) \<and>
      list_all (\<lambda>c. \<not> float_overflows (dict_get d c)) (map snd base_fields))"

text \<open>The report date of a record as a number \<open>yyyymmdd\<close> (0 when it has none).\<close>

definition report_num :: "pydict \<Rightarrow> nat" where
  "report_num d = (case to_datetime (dict_get d ''REPDTE'') of Inl _ \<Rightarrow> 0 | Inr ymd \<Rightarrow> date_num ymd)"

text \<open>The Timestamp of the report date of a record (\<open>VNone\<close> when it has none).\<close>

definition report_timestamp :: "pydict \<Rightarrow> pyval" where
  "report_timestamp d =
     (case to_datetime (dict_get d ''REPDTE'') of
        Inl _ \<Rightarrow> VNone
      | Inr ymd \<Rightarrow> VTimestamp (fst ymd) (fst (snd ymd)) (snd (snd ymd)))"


definition quarter_record :: "string \<Rightarrow> int \<Rightarrow> pydict" where
  "quarter_record repdte aggregate =
     [(VStr ''REPDTE'', VStr repdte), (VStr ''LNRECONS'', VInt aggregate)]"




section \<open>FDICAPIClient\<close>

text \<open>
  The network is an oracle: \<open>http env n req\<close> is what the \<open>n\<close>-th call of
  \<^verbatim>\<open>requests.get\<close> of the run meets when it sends \<open>req\<close>: no answer in 30 seconds, no
  connection, or a response with its status code and its body as \<^verbatim>\<open>response.json()\<close>
  reads it (\<open>None\<close> when the body is not JSON). The number of calls made so far is
  threaded through every function that uses the network.

  A query string built by an f-string is kept as its parts: \<open>Fmt v\<close> stands for the text
  of a value that is not a string.
\<close>

datatype fpart = Lit string | Fmt pyval

definition fmt :: "pyval \<Rightarrow> fpart" where
  "fmt v = (case v of VStr s \<Rightarrow> Lit s | _ \<Rightarrow> Fmt v)"

record request =
  endpoint :: string
  filters :: "fpart list"
  field_list :: string
  limit :: nat

datatype http_outcome = TimedOut | Unreachable | Response nat "pyval option"

datatype write_outcome = Written | NotOpened | Truncated

text \<open>
  The rest of the environment: \<open>uniform01 env n\<close> is the \<open>n\<close>-th number the random
  generator draws from \<open>[0, 1)\<close>, and \<open>disk env n\<close> tells how the \<open>n\<close>-th writing of a
  cache file ends: written, not opened (the file stays as it was), or opened and left
  broken.
\<close>

record env =
  http :: "nat \<Rightarrow> request \<Rightarrow> http_outcome"
  uniform01 :: "nat \<Rightarrow> real"
  disk :: "nat \<Rightarrow> write_outcome"

text \<open>
  \<^verbatim>\<open>requests.get(...)\<close>, \<^verbatim>\<open>response.raise_for_status()\<close> (an \<open>HTTPError\<close> on a
  status from 400 to 599) and \<^verbatim>\<open>response.json()\<close> (a \<open>JSONDecodeError\<close> on a body
  that is not JSON).
\<close>

definition response_json :: "http_outcome \<Rightarrow> exn + pyval" where
  "response_json out =
     (case out of
        TimedOut \<Rightarrow> Inl ConnectTimeout
      | Unreachable \<Rightarrow> Inl ConnectionFailure
      | Response status body \<Rightarrow>
          (if 400 \<le> status \<and> status < 600 then Inl (HTTPError status)
           else case body of None \<Rightarrow> Inl JSONDecodeError | Some j \<Rightarrow> Inr j))"

text \<open>
  The exceptions below \<^verbatim>\<open>requests.exceptions.RequestException\<close>; the
  \<open>JSONDecodeError\<close> of \<^verbatim>\<open>response.json()\<close> is one of them (requests 2.27 and later).
\<close>

fun is_request_exception :: "exn \<Rightarrow> bool" where
  "is_request_exception ConnectTimeout = True"
| "is_request_exception ConnectionFailure = True"
| "is_request_exception (HTTPError _) = True"
| "is_request_exception JSONDecodeError = True"
| "is_request_exception _ = False"

definition get_data :: "env \<Rightarrow> nat \<Rightarrow> request \<Rightarrow> (exn + pyval) \<times> nat" where
  "get_data env n req =
     (case response_json (http env n req) of
        Inl e \<Rightarrow>
          (if is_request_exception e then (Inr (VDict [(VStr ''data'', VList [])]), Suc n)
           else (Inl e, Suc n))
      | Inr j \<Rightarrow> (Inr j, Suc n))"

text \<open>\<^verbatim>\<open>data.get('data', [])\<close>: only a dict has \<open>get\<close>.\<close>

definition envelope_data :: "pyval \<Rightarrow> exn + pyval" where
  "envelope_data data =
     (case data of
        VDict d \<Rightarrow> Inr (case map_of d (VStr ''data'') of None \<Rightarrow> VList [] | Some v \<Rightarrow> v)
      | _ \<Rightarrow> Inl AttributeError)"

definition institutions_request :: "fpart list \<Rightarrow> string \<Rightarrow> request" where
  "institutions_request fs flds =
     \<lparr>endpoint = ''institutions'', filters = fs, field_list = flds, limit = 10000\<rparr>"

definition get_institutions :: "env \<Rightarrow> nat \<Rightarrow> fpart list \<Rightarrow> string \<Rightarrow> (exn + pyval) \<times> nat" where
  "get_institutions env n fs flds =
     (case get_data env n (institutions_request fs flds) of
        (r, n') \<Rightarrow> (bind_exn r envelope_data, n'))"

definition financials_request :: "pyval \<Rightarrow> string \<Rightarrow> string \<Rightarrow> request" where
  "financials_request cert fs flds =
     \<lparr>endpoint = ''financials'',
      filters = [Lit ''CERT:'', fmt cert] @ (if fs \<noteq> [] then [Lit ('' AND '' @ fs)] else []),
      field_list = flds, limit = 10000\<rparr>"

definition get_financials :: "env \<Rightarrow> nat \<Rightarrow> pyval \<Rightarrow> string \<Rightarrow> string \<Rightarrow> (exn + pyval) \<times> nat" where
  "get_financials env n cert fs flds =
     (case get_data env n (financials_request cert fs flds) of
        (r, n') \<Rightarrow> (bind_exn r envelope_data, n'))"

section \<open>BankDataRepository\<close>

subsection \<open>The cache\<close>

text \<open>
  The cache directory maps a path to a file: one that \<^verbatim>\<open>json.load\<close> reads as a value,
  or one that makes \<^verbatim>\<open>open\<close> or \<^verbatim>\<open>json.load\<close> raise the \<open>IOError\<close> or
  \<open>JSONDecodeError\<close> the code catches. \<^verbatim>\<open>json.dump\<close> followed by \<^verbatim>\<open>json.load\<close> is
  taken to give the value back; Python writes a dict key that is a number, a bool or null
  as its text, which the names in a dataset, strings in every payload of the API, do not
  meet.
\<close>

datatype cache_file = Garbled | JsonFile pyval

record world =
  files :: "string \<Rightarrow> cache_file option"
  http_calls :: nat
  draws :: nat
  writes :: nat

definition get_cache_path :: "string \<Rightarrow> string \<Rightarrow> string" where
  "get_cache_path start_date end_date =
     ''data_cache/bank_data_'' @ start_date @ ''_'' @ end_date @ ''.json''"

definition load_cached_data :: "world \<Rightarrow> string \<Rightarrow> string \<Rightarrow> pyval" where
  "load_cached_data w start_date end_date =
     (case files w (get_cache_path start_date end_date) of
        None \<Rightarrow> VNone
      | Some Garbled \<Rightarrow> VNone
      | Some (JsonFile v) \<Rightarrow> v)"

definition save_to_cache :: "env \<Rightarrow> world \<Rightarrow> pyval \<Rightarrow> string \<Rightarrow> string \<Rightarrow> world" where
  "save_to_cache env w data start_date end_date =
     (let cache_path = get_cache_path start_date end_date;
          w' = w\<lparr>writes := Suc (writes w)\<rparr>
      in case disk env (writes w) of
           Written \<Rightarrow> w'\<lparr>files := (files w)(cache_path \<mapsto> JsonFile data)\<rparr>
         | NotOpened \<Rightarrow> w'
         | Truncated \<Rightarrow> w'\<lparr>files := (files w)(cache_path \<mapsto> Garbled)\<rparr>)"

subsection \<open>Fallback synthesis\<close>

text \<open>The constant \<^verbatim>\<open>BANK_INFO\<close>, a list of dicts \<^verbatim>\<open>{"cert": ..., "name": ...}\<close>, as
  pairs (cert, name); \<open>roster_item\<close> is the dict of a pair.\<close>

definition BANK_INFO :: "(string \<times> string) list" where
  "BANK_INFO =
     [(''33124'', ''Goldman Sachs Bank USA''),
      (''628'', ''JPMorgan Chase Bank, National Association''),
      (''3510'', ''Bank of America, National Association''),
      (''3511'', ''Wells Fargo Bank, National Association''),
      (''7213'', ''Citibank, National Association''),
      (''6548'', ''U.S. Bank National Association''),
      (''6384'', ''PNC Bank, National Association''),
      (''9846'', ''Truist Bank''),
      (''4297'', ''Capital One, National Association'')]"

definition roster_item :: "string \<times> string \<Rightarrow> pyval" where
  "roster_item b = VDict [(VStr ''cert'', VStr (fst b)), (VStr ''name'', VStr (snd b))]"

text \<open>
  \<^verbatim>\<open>pd.date_range(start=start, end=end, freq='Q')\<close>: the quarter ends from \<open>start\<close> to
  \<open>end\<close>, both included, in order.
\<close>

definition quarter_ends :: "nat \<times> nat \<times> nat \<Rightarrow> nat \<times> nat \<times> nat \<Rightarrow> (nat \<times> nat \<times> nat) list" where
  "quarter_ends start end' =
     filter (\<lambda>q. date_num start \<le> date_num q \<and> date_num q \<le> date_num end')
       (concat (map (\<lambda>y. [(y, 3, 31), (y, 6, 30), (y, 9, 30), (y, 12, 31)])
          [fst start ..< Suc (fst end')]))"

text \<open>The day number of a date (days since 1970-01-01), for \<^verbatim>\<open>(date - start).days\<close>.\<close>

definition days_from_civil :: "nat \<times> nat \<times> nat \<Rightarrow> int" where
  "days_from_civil ymd =
     (case ymd of (y, m, d) \<Rightarrow>
        (let y' = (if m \<le> 2 then int y - 1 else int y);
             era = y' div 400;
             yoe = y' - era * 400;
             mp = (if 2 < m then int m - 3 else int m + 9);
             doy = (153 * mp + 2) div 5 + int d - 1;
             doe = yoe * 365 + yoe div 4 - yoe div 100 + doy
         in era * 146097 + doe - 719468))"

text \<open>\<^verbatim>\<open>date.strftime("%Y%m%d")\<close>\<close>

definition digit_char :: "nat \<Rightarrow> char" where
  "digit_char d = char_of (48 + d mod 10)"

definition strftime_ymd :: "nat \<times> nat \<times> nat \<Rightarrow> string" where
  "strftime_ymd ymd =
     (case ymd of (y, m, d) \<Rightarrow>
        [digit_char (y div 1000), digit_char (y div 100), digit_char (y div 10), digit_char y,
         digit_char (m div 10), digit_char m, digit_char (d div 10), digit_char d])"

text \<open>\<^verbatim>\<open>np.random.uniform(lo, hi)\<close> at draw \<open>n\<close>.\<close>

definition uniform :: "env \<Rightarrow> nat \<Rightarrow> real \<Rightarrow> real \<Rightarrow> real" where
  "uniform env n lo hi = lo + (hi - lo) * uniform01 env n"

definition is_large_bank :: "string \<Rightarrow> bool" where
  "is_large_bank bank_name =
     (bank_name \<in> set [''JPMorgan Chase Bank, National Association'',
                       ''Bank of America, National Association'',
                       ''Wells Fargo Bank, National Association'',
                       ''Citibank, National Association''])"

definition is_medium_bank :: "string \<Rightarrow> bool" where
  "is_medium_bank bank_name =
     (bank_name \<in> set [''Goldman Sachs Bank USA'',
                       ''U.S. Bank National Association'',
                       ''PNC Bank, National Association'',
                       ''Truist Bank''])"

definition base_assets_of :: "string \<Rightarrow> real" where
  "base_assets_of bank_name =
     (if is_large_bank bank_name then 500000000000
      else if is_medium_bank bank_name then 100000000000
      else 50000000000)"

text \<open>
  The body of the loop over the quarters: the record of one quarter, and the number of
  draws after it. The draws are taken in the order of the source; Goldman Sachs takes
  three more.
\<close>

definition fallback_record ::
    "env \<Rightarrow> string \<Rightarrow> nat \<times> nat \<times> nat \<Rightarrow> nat \<times> nat \<times> nat \<Rightarrow> nat \<Rightarrow> pyval \<times> nat" where
  "fallback_record env bank_name start date n =
     (let date_str = strftime_ymd date;
          years_since_start = real_of_int (days_from_civil date - days_from_civil start) / 365.25;
          growth_factor = 1 + years_since_start * 0.05;
          random_factor = uniform env n 0.95 1.05;
          assets = base_assets_of bank_name * growth_factor * random_factor;
          deposits0 = assets * 0.8 * uniform env (n + 1) 0.9 1.1;
          loans0 = assets * 0.6 * uniform env (n + 2) 0.9 1.1;
          tier1_capital0 = assets * 0.1 * uniform env (n + 3) 0.9 1.1;
          gs = (bank_name = ''Goldman Sachs Bank USA'');
          deposits = (if gs then assets * 0.6 * uniform env (n + 4) 0.9 1.1 else deposits0);
          loans = (if gs then assets * 0.4 * uniform env (n + 5) 0.9 1.1 else loans0);
          tier1_capital = (if gs then assets * 0.12 * uniform env (n + 6) 0.9 1.1 else tier1_capital0);
          k = (if gs then n + 7 else n + 4)
      in (VDict
           [(VStr ''REPDTE'', VStr date_str),
            (VStr ''ASSET'', VFloat (Fin assets)),
            (VStr ''DEP'', VFloat (Fin deposits)),
            (VStr ''LNLSGR'', VFloat (Fin loans)),
            (VStr ''LNLSNET'', VFloat (Fin (loans * 0.98))),
            (VStr ''RBCT1J'', VFloat (Fin tier1_capital)),
            (VStr ''ROA'', VFloat (Fin (uniform env k 0.5 1.5))),
            (VStr ''ROE'', VFloat (Fin (uniform env (k + 1) 5 15))),
            (VStr ''SC'', VFloat (Fin (assets * 0.2))),
            (VStr ''LNRE'', VFloat (Fin (loans * 0.5))),
            (VStr ''LNCI'', VFloat (Fin (loans * 0.3))),
            (VStr ''LNAG'', VFloat (Fin (loans * 0.05))),
            (VStr ''LNCRCD'', VFloat (Fin (loans * 0.1))),
            (VStr ''LNCONOTH'', VFloat (Fin (loans * 0.05))),
            (VStr ''LNATRES'', VFloat (Fin (loans * 0.02))),
            (VStr ''NIMY'', VFloat (Fin (uniform env (k + 2) 2 4))),
            (VStr ''EEFFR'', VFloat (Fin (uniform env (k + 3) 50 70)))],
          k + 4))"

fun fallback_records ::
    "env \<Rightarrow> string \<Rightarrow> nat \<times> nat \<times> nat \<Rightarrow> (nat \<times> nat \<times> nat) list \<Rightarrow> nat \<Rightarrow> pyval list \<times> nat" where
  "fallback_records env bank_name start [] n = ([], n)"
| "fallback_records env bank_name start (date # quarters) n =
     (case fallback_record env bank_name start date n of
        (record, n1) \<Rightarrow>
          (case fallback_records env bank_name start quarters n1 of
             (records, n2) \<Rightarrow> (record # records, n2)))"

text \<open>
  The loop over \<^verbatim>\<open>BANK_INFO\<close>, on the two dicts and the number of draws. The two dates
  are parsed inside the loop; with a date that does not parse the first round raises.
\<close>

fun fallback_banks ::
    "env \<Rightarrow> string \<Rightarrow> string \<Rightarrow> (string \<times> string) list \<Rightarrow> pydict \<times> pydict \<times> nat \<Rightarrow>
     exn + (pydict \<times> pydict \<times> nat)" where
  "fallback_banks env start_date end_date [] st = Inr st"
| "fallback_banks env start_date end_date (bank_info # banks) (institutions_data, financials_data, n) =
     (let bank_name = snd bank_info;
          cert = fst bank_info;
          institutions_data' =
            AList.update (VStr bank_name)
              (VDict [(VStr ''NAME'', VStr bank_name), (VStr ''CERT'', VStr cert)]) institutions_data
      in bind_exn (to_datetime (VStr start_date)) (\<lambda>start.
         bind_exn (to_datetime (VStr end_date)) (\<lambda>end'.
           case fallback_records env bank_name start (quarter_ends start end') n of
             (financial_records, n') \<Rightarrow>
               fallback_banks env start_date end_date banks
                 (institutions_data',
                  AList.update (VStr bank_name) (VList financial_records) financials_data,
                  n'))))"

text \<open>The dict both paths of \<^verbatim>\<open>fetch_data\<close> return.\<close>

definition dataset :: "pydict \<Rightarrow> pydict \<Rightarrow> pyval" where
  "dataset institutions_data financials_data =
     VDict [(VStr ''institutions_data'', VDict institutions_data),
            (VStr ''financials_data'', VDict financials_data)]"

definition generate_fallback_data ::
    "env \<Rightarrow> world \<Rightarrow> string \<Rightarrow> string \<Rightarrow> (exn + pyval) \<times> world" where
  "generate_fallback_data env w start_date end_date =
     (case fallback_banks env start_date end_date BANK_INFO ([], [], draws w) of
        Inl e \<Rightarrow> (Inl e, w)
      | Inr (institutions_data, financials_data, n) \<Rightarrow>
          (let result = dataset institutions_data financials_data
           in (Inr result, save_to_cache env (w\<lparr>draws := n\<rparr>) result start_date end_date)))"

subsection \<open>fetch_data\<close>

text \<open>The operations of Python that the loop applies to a payload of any shape.\<close>

text \<open>\<^verbatim>\<open>institutions[0]\<close>\<close>

fun py_index0 :: "pyval \<Rightarrow> exn + pyval" where
  "py_index0 (VList []) = Inl IndexError"
| "py_index0 (VList (x # xs)) = Inr x"
| "py_index0 (VStr []) = Inl IndexError"
| "py_index0 (VStr (c # cs)) = Inr (VStr [c])"
| "py_index0 (VDict d) = (case map_of d (VInt 0) of None \<Rightarrow> Inl KeyError | Some v \<Rightarrow> Inr v)"
| "py_index0 _ = Inl TypeError"

text \<open>Whether the text \<open>k\<close> occurs in the text \<open>s\<close>.\<close>

fun is_infix :: "string \<Rightarrow> string \<Rightarrow> bool" where
  "is_infix k [] = (k = [])"
| "is_infix k (c # cs) = (take (length k) (c # cs) = k \<or> is_infix k cs)"

text \<open>
  \<^verbatim>\<open>'KEY' in v\<close>: a key of a dict, an element of a list, a part of a string;
  \<open>TypeError\<close> on a value that is not iterable.
\<close>

fun py_contains :: "string \<Rightarrow> pyval \<Rightarrow> exn + bool" where
  "py_contains k (VDict d) = Inr (map_of d (VStr k) \<noteq> None)"
| "py_contains k (VList xs) = Inr (VStr k \<in> set xs)"
| "py_contains k (VStr s) = Inr (is_infix k s)"
| "py_contains k _ = Inl TypeError"

text \<open>\<^verbatim>\<open>v['KEY']\<close>: only a dict takes a string.\<close>

fun py_getitem :: "pyval \<Rightarrow> string \<Rightarrow> exn + pyval" where
  "py_getitem (VDict d) k = (case map_of d (VStr k) of None \<Rightarrow> Inl KeyError | Some v \<Rightarrow> Inr v)"
| "py_getitem _ k = Inl TypeError"

text \<open>A list or a dict cannot be the key of a dict.\<close>

fun hashable :: "pyval \<Rightarrow> bool" where
  "hashable (VList _) = False"
| "hashable (VDict _) = False"
| "hashable _ = True"

text \<open>\<^verbatim>\<open>f['data']\<close> for the \<open>f\<close> with \<^verbatim>\<open>isinstance(f, dict) and 'data' in f\<close>.\<close>

fun data_of :: "pyval \<Rightarrow> pyval option" where
  "data_of (VDict d) = map_of d (VStr ''data'')"
| "data_of _ = None"

text \<open>
  \<^verbatim>\<open>[f['data'] for f in financials if isinstance(f, dict) and 'data' in f]\<close>: a list
  gives its elements, a string its characters and a dict its keys (none of them a dict);
  any other value is not iterable.
\<close>

fun records_of :: "pyval \<Rightarrow> exn + pyval list" where
  "records_of (VList xs) = Inr (List.map_filter data_of xs)"
| "records_of (VStr s) = Inr []"
| "records_of (VDict d) = Inr (List.map_filter data_of (map fst d))"
| "records_of _ = Inl TypeError"

definition institution_fields :: string where
  "institution_fields = ''NAME,CERT''"

definition financial_fields :: string where
  "financial_fields =
     ''CERT,REPDTE,ASSET,DEP,LNLSGR,LNLSNET,SC,LNRE,LNCI,LNAG,LNCRCD,LNCONOTH,LNATRES,P3ASSET,P9ASSET,RBCT1J,DRLNLS,CRLNLS,'' @
     ''NETINC,ERNASTR,NPERFV,P3ASSETR,P9ASSETR,NIMY,NTLNLSR,LNATRESR,NCLNLSR,ROA,ROE,RBC1AAJ,'' @
     ''RBCT2,RBCRWAJ,LNLSDEPR,LNLSNTV,EEFFR,LNRESNCR,ELNANTR,IDERNCVR,NTLNLSQ,LNRECONS,'' @
     ''LNRENRES,LNRENROW,LNRENROT,LNRERES,LNREMULT,LNREAG,LNRECNFM,LNRECNOT,LNCOMRE,CT1BADJ,EQ,EQPP''"

text \<open>
  The query of a roster item: by name for a string (the name between double quotes), by
  certificate for a dict with the key \<open>cert\<close>; \<open>None\<close> for any other item, which the loop
  skips.
\<close>

definition item_filters :: "pyval \<Rightarrow> fpart list option" where
  "item_filters bank_item =
     (case bank_item of
        VStr s \<Rightarrow> Some [Lit (''NAME:'' @ [CHR 0x22] @ s @ [CHR 0x22])]
      | VDict d \<Rightarrow>
          (case map_of d (VStr ''cert'') of None \<Rightarrow> None | Some c \<Rightarrow> Some [Lit ''CERT:'', fmt c])
      | _ \<Rightarrow> None)"

text \<open>The variables the loops of \<^verbatim>\<open>fetch_data\<close> update, and the number of network calls.\<close>

record fetch_state =
  institutions_data :: pydict
  financials_data :: pydict
  api_failures :: nat
  calls :: nat

text \<open>
  The statements under \<^verbatim>\<open>if 'NAME' in bank_data and 'CERT' in bank_data\<close>. The result
  is the exception that left them, if any, and the state at that point: the institution
  is stored before the financials are fetched.
\<close>

definition store_bank ::
    "env \<Rightarrow> string \<Rightarrow> string \<Rightarrow> pyval \<Rightarrow> fetch_state \<Rightarrow> exn option \<times> fetch_state" where
  "store_bank env start_date end_date bank_data st =
     (case py_getitem bank_data ''NAME'' of
        Inl e \<Rightarrow> (Some e, st)
      | Inr name \<Rightarrow>
          if \<not> hashable name then (Some TypeError, st)
          else
            (let st1 = st\<lparr>institutions_data := AList.update name bank_data (institutions_data st)\<rparr>
             in case py_getitem bank_data ''CERT'' of
                  Inl e \<Rightarrow> (Some e, st1)
                | Inr cert \<Rightarrow>
                    (case get_financials env (calls st1) cert
                            (''REPDTE:['' @ start_date @ '' TO '' @ end_date @ '']'') financial_fields of
                       (r, n) \<Rightarrow>
                         (let st2 = st1\<lparr>calls := n\<rparr>
                          in case bind_exn r records_of of
                               Inl e \<Rightarrow> (Some e, st2)
                             | Inr recs \<Rightarrow>
                                 (None, st2\<lparr>financials_data :=
                                            AList.update name (VList recs) (financials_data st2)\<rparr>)))))"

text \<open>
  The body of the inner \<^verbatim>\<open>try\<close> for one roster item. \<open>None\<close>: the body ended (the item
  was stored, or skipped with a warning); \<open>Some e\<close>: it raised \<open>e\<close>.
\<close>

definition fetch_item ::
    "env \<Rightarrow> string \<Rightarrow> string \<Rightarrow> pyval \<Rightarrow> fetch_state \<Rightarrow> exn option \<times> fetch_state" where
  "fetch_item env start_date end_date bank_item st =
     (case item_filters bank_item of
        None \<Rightarrow> (None, st)
      | Some fs \<Rightarrow>
          (case get_institutions env (calls st) fs institution_fields of
             (r, n) \<Rightarrow>
               (let st1 = st\<lparr>calls := n\<rparr>
                in case r of
                     Inl e \<Rightarrow> (Some e, st1)
                   | Inr institutions \<Rightarrow>
                       if \<not> py_truthy institutions then (None, st1)
                       else
                         (case py_index0 institutions of
                            Inl e \<Rightarrow> (Some e, st1)
                          | Inr bank \<Rightarrow>
                              (case data_of bank of
                                 None \<Rightarrow> (None, st1)
                               | Some bank_data \<Rightarrow>
                                   (case py_contains ''NAME'' bank_data of
                                      Inl e \<Rightarrow> (Some e, st1)
                                    | Inr has_name \<Rightarrow>
                                        if \<not> has_name then (None, st1)
                                        else
                                          (case py_contains ''CERT'' bank_data of
                                             Inl e \<Rightarrow> (Some e, st1)
                                           | Inr has_cert \<Rightarrow>
                                               if \<not> has_cert then (None, st1)
                                               else store_bank env start_date end_date bank_data st1)))))))"

text \<open>
  The loop over the roster: \<^verbatim>\<open>except Exception\<close> counts the failure and goes on with
  the next item.
\<close>

fun fetch_batch :: "env \<Rightarrow> string \<Rightarrow> string \<Rightarrow> pyval list \<Rightarrow> fetch_state \<Rightarrow> fetch_state" where
  "fetch_batch env start_date end_date [] st = st"
| "fetch_batch env start_date end_date (bank_item # rest) st =
     (case fetch_item env start_date end_date bank_item st of
        (None, st') \<Rightarrow> fetch_batch env start_date end_date rest st'
      | (Some e, st') \<Rightarrow>
          fetch_batch env start_date end_date rest (st'\<lparr>api_failures := Suc (api_failures st')\<rparr>))"

text \<open>
  \<^verbatim>\<open>for retry_count in range(max_retries)\<close>, with \<open>remaining\<close> rounds to go. A retry
  clears the two dicts and nothing else; the loop ends at the first round that collected an
  institution. Every exception of the round is caught inside \<open>fetch_batch\<close>, so the
  outer \<^verbatim>\<open>except\<close> of the source is never entered and has no counterpart here.
\<close>

fun retry_loop ::
    "env \<Rightarrow> string \<Rightarrow> string \<Rightarrow> pyval list \<Rightarrow> nat \<Rightarrow> nat \<Rightarrow> fetch_state \<Rightarrow> fetch_state" where
  "retry_loop env start_date end_date bank_info retry_count 0 st = st"
| "retry_loop env start_date end_date bank_info retry_count (Suc remaining) st =
     (let st1 = (if 0 < retry_count
                 then st\<lparr>institutions_data := [], financials_data := []\<rparr> else st);
          st2 = fetch_batch env start_date end_date bank_info st1
      in if institutions_data st2 \<noteq> [] then st2
         else retry_loop env start_date end_date bank_info (Suc retry_count) remaining st2)"

definition max_retries :: nat where
  "max_retries = 3"

text \<open>The state before the retry loop, in a world \<open>w\<close>.\<close>

definition initial_state :: "world \<Rightarrow> fetch_state" where
  "initial_state w =
     \<lparr>institutions_data = [], financials_data = [], api_failures = 0, calls = http_calls w\<rparr>"

definition fetch_data ::
    "env \<Rightarrow> world \<Rightarrow> pyval list \<Rightarrow> string \<Rightarrow> string \<Rightarrow> (exn + pyval) \<times> world" where
  "fetch_data env w bank_info start_date end_date =
     (let cached_data = load_cached_data w start_date end_date
      in if py_truthy cached_data then (Inr cached_data, w)
         else
           (let st = retry_loop env start_date end_date bank_info 0 max_retries (initial_state w);
                w1 = w\<lparr>http_calls := calls st\<rparr>
            in if length bank_info div 2 < api_failures st \<or> institutions_data st = []
               then generate_fallback_data env w1 start_date end_date
               else
                 (let result = dataset (institutions_data st) (financials_data st)
                  in (Inr result, save_to_cache env w1 result start_date end_date))))"

subsection \<open>Vocabulary of the repository's properties\<close>

text \<open>
  The failures of a call that \<^verbatim>\<open>requests\<close> raises as a \<open>RequestException\<close>, the
  ones \<open>get_data\<close> catches: no answer in time, no connection, a status that
  \<^verbatim>\<open>raise_for_status\<close> rejects (400 to 599), or a body that is not JSON. A status from
  300 to 399 and a body that is JSON but not an object are not among them.
\<close>

fun request_failure :: "http_outcome \<Rightarrow> bool" where
  "request_failure TimedOut = True"
| "request_failure Unreachable = True"
| "request_failure (Response status body) = (400 \<le> status \<and> status < 600 \<or> body = None)"

text \<open>The names of the entities of a dict of a dataset, in order.\<close>

definition names_of :: "pydict \<Rightarrow> pyval list" where
  "names_of d = map fst d"

text \<open>The names of \<^verbatim>\<open>BANK_INFO\<close>, in order.\<close>

definition bank_names :: "pyval list" where
  "bank_names = map (\<lambda>b. VStr (snd b)) BANK_INFO"

text \<open>The lists of period records in a financials dict that hold \<open>k\<close> records.\<close>

definition holds_records :: "nat \<Rightarrow> pyval \<Rightarrow> bool" where
  "holds_records k v = (case v of VList recs \<Rightarrow> length recs = k | _ \<Rightarrow> False)"

text \<open>
  Scripted environments for concrete runs: the \<open>n\<close>-th call gets the \<open>n\<close>-th outcome of
  the script (and no answer after its end), every draw is \<open>1/2\<close>, every write succeeds.
\<close>

definition scripted :: "http_outcome list \<Rightarrow> env" where
  "scripted script =
     \<lparr>http = (\<lambda>n req. if n < length script then script ! n else TimedOut),
      uniform01 = (\<lambda>n. 1 / 2),
      disk = (\<lambda>n. Written)\<rparr>"

definition empty_world :: world where
  "empty_world = \<lparr>files = (\<lambda>p. None), http_calls = 0, draws = 0, writes = 0\<rparr>"

text \<open>Bodies of the API: one institution, a list of period records, no match.\<close>

definition institution_body :: "string \<Rightarrow> string \<Rightarrow> http_outcome" where
  "institution_body name cert =
     Response 200 (Some (VDict [(VStr ''data'',
       VList [VDict [(VStr ''data'', VDict [(VStr ''NAME'', VStr name), (VStr ''CERT'', VStr cert)])]])]))"

definition financials_body :: "pyval list \<Rightarrow> http_outcome" where
  "financials_body recs =
     Response 200 (Some (VDict [(VStr ''data'', VList (map (\<lambda>r. VDict [(VStr ''data'', r)]) recs))]))"

definition no_match_body :: http_outcome where
  "no_match_body = Response 200 (Some (VDict [(VStr ''data'', VList [])]))"

text \<open>A roster of three of the banks of \<^verbatim>\<open>BANK_INFO\<close>, by certificate.\<close>

definition roster3 :: "pyval list" where
  "roster3 = map roster_item (take 3 BANK_INFO)"

text \<open>Two of the three lookups find no institution; the third bank is fetched.\<close>

definition two_unresolved :: env where
  "two_unresolved =
     scripted [no_match_body, no_match_body,
               institution_body ''Bank of America, National Association'' ''3510'',
               financials_body [VDict [(VStr ''REPDTE'', VStr ''20240331'')]]]"

text \<open>Two of the three lookups get a body that is a JSON list, on which
  \<^verbatim>\<open>data.get\<close> raises; the third bank is fetched.\<close>

definition two_raising :: env where
  "two_raising =
     scripted [Response 200 (Some (VList [])), Response 200 (Some (VList [])),
               institution_body ''Bank of America, National Association'' ''3510'',
               financials_body [VDict [(VStr ''REPDTE'', VStr ''20240331'')]]]"

text \<open>All three institutions are found; the financials of the second come as
  \<^verbatim>\<open>{"data": null}\<close>, which the comprehension cannot iterate.\<close>

definition one_broken_financials :: env where
  "one_broken_financials =
     scripted [institution_body ''Goldman Sachs Bank USA'' ''33124'',
               financials_body [VDict [(VStr ''REPDTE'', VStr ''20240331'')]],
               institution_body ''JPMorgan Chase Bank, National Association'' ''628'',
               Response 200 (Some (VDict [(VStr ''data'', VNone)])),
               institution_body ''Bank of America, National Association'' ''3510'',
               financials_body [VDict [(VStr ''REPDTE'', VStr ''20240331'')]]]"

text \<open>The three lookups of the first round raise; the second round finds every bank.\<close>

definition first_round_raises :: env where
  "first_round_raises =
     scripted [Response 200 (Some (VList [])), Response 200 (Some (VList [])),
               Response 200 (Some (VList [])),
               institution_body ''Goldman Sachs Bank USA'' ''33124'',
               financials_body [VDict [(VStr ''REPDTE'', VStr ''20240331'')]],
               institution_body ''JPMorgan Chase Bank, National Association'' ''628'',
               financials_body [VDict [(VStr ''REPDTE'', VStr ''20240331'')]],
               institution_body ''Bank of America, National Association'' ''3510'',
               financials_body [VDict [(VStr ''REPDTE'', VStr ''20240331'')]]]"

text \<open>The calendar order of dates: \<open>a\<close> is the day \<open>b\<close> or a later one.\<close>

definition on_or_after :: "nat \<times> nat \<times> nat \<Rightarrow> nat \<times> nat \<times> nat \<Rightarrow> bool" where
  "on_or_after a b =
     (case (a, b) of ((y, m, d), (y0, m0, d0)) \<Rightarrow>
        y0 < y \<or> (y = y0 \<and> (m0 < m \<or> (m = m0 \<and> d0 \<le> d))))"

text \<open>A record of 2019-03-31 and one of 2018-12-31 with the same amounts.\<close>

definition cecl_record :: "string \<Rightarrow> pydict" where
  "cecl_record repdte =
     [(VStr ''REPDTE'', VStr repdte), (VStr ''CT1BADJ'', VInt 100), (VStr ''EQ'', VInt 90),
      (VStr ''EQPP'', VInt 5), (VStr ''RBCT1J'', VInt 2000000), (VStr ''LNATRES'', VInt 500)]"

text \<open>A row with the eight amounts the capital ratios read.\<close>

definition ratio_row :: row where
  "ratio_row =
     [(''Real Estate Loans'', VFloat (Fin 3000000)),
      (''RE Construction and Land Development'', VFloat (Fin 400000)),
      (''Commercial and Industrial Loans'', VFloat (Fin 1000000)),
      (''Agriculture Loans'', VFloat (Fin 0)),
      (''Credit Cards'', VFloat (Fin 200000)),
      (''Multifamily'', VFloat (Fin 300000)),
      (''Loans to Nonresidential Properties'', VFloat (Fin 200000)),
      (''Commercial Real Estate Loans not Secured by Real Estate'', VFloat (Fin 100000))]"

text \<open>A world whose cache holds one file, for the key \<open>(start_date, end_date)\<close>.\<close>

definition world_with_cache :: "pyval \<Rightarrow> string \<Rightarrow> string \<Rightarrow> world" where
  "world_with_cache v start_date end_date =
     empty_world\<lparr>files :=
       (\<lambda>p. if p = get_cache_path start_date end_date then Some (JsonFile v) else None)\<rparr>"

text \<open>The world with the cache file of a key removed.\<close>

definition without_cache :: "world \<Rightarrow> string \<Rightarrow> string \<Rightarrow> world" where
  "without_cache w start_date end_date =
     w\<lparr>files := (files w)(get_cache_path start_date end_date := None)\<rparr>"

text \<open>The names under one key of the dataset a call returned (none if it raised).\<close>

definition result_names :: "exn + pyval \<Rightarrow> string \<Rightarrow> pyval list" where
  "result_names r k =
     (case r of
        Inr (VDict d) \<Rightarrow> (case map_of d (VStr k) of Some (VDict x) \<Rightarrow> names_of x | _ \<Rightarrow> [])
      | _ \<Rightarrow> [])"

text \<open>The dataset of the one bank that the environment \<open>two_unresolved\<close> lets through.\<close>

definition only_bank_of_america :: pyval where
  "only_bank_of_america =
     dataset
       [(VStr ''Bank of America, National Association'',
          VDict [(VStr ''NAME'', VStr ''Bank of America, National Association''),
                 (VStr ''CERT'', VStr ''3510'')])]
       [(VStr ''Bank of America, National Association'',
          VList [VDict [(VStr ''REPDTE'', VStr ''20240331'')]])]"

text \<open>
  The roster items the loop sends a lookup for: a string, and a dict with the key
  \<open>cert\<close>.
\<close>

definition has_lookup :: "pyval \<Rightarrow> bool" where
  "has_lookup bank_item = (item_filters bank_item \<noteq> None)"

text \<open>An item of a round that raised an exception.\<close>

definition raised :: "exn option \<Rightarrow> bool" where
  "raised r = (r \<noteq> None)"

text \<open>
  What the items of one round of the roster loop did, in order: \<open>None\<close> for an item whose
  body ended, \<open>Some e\<close> for one that raised \<open>e\<close>. The state goes from item to item as
  in \<open>fetch_batch\<close>.
\<close>

fun batch_outcomes ::
    "env \<Rightarrow> string \<Rightarrow> string \<Rightarrow> pyval list \<Rightarrow> fetch_state \<Rightarrow> exn option list" where
  "batch_outcomes env start_date end_date [] st = []"
| "batch_outcomes env start_date end_date (bank_item # rest) st =
     (case fetch_item env start_date end_date bank_item st of
        (None, st') \<Rightarrow> None # batch_outcomes env start_date end_date rest st'
      | (Some e, st') \<Rightarrow>
          Some e # batch_outcomes env start_date end_date rest
                     (st'\<lparr>api_failures := Suc (api_failures st')\<rparr>))"

text \<open>The outcomes of the rounds the retry loop performs, one list for each round.\<close>

fun retry_outcomes ::
    "env \<Rightarrow> string \<Rightarrow> string \<Rightarrow> pyval list \<Rightarrow> nat \<Rightarrow> nat \<Rightarrow> fetch_state \<Rightarrow> exn option list list" where
  "retry_outcomes env start_date end_date bank_info retry_count 0 st = []"
| "retry_outcomes env start_date end_date bank_info retry_count (Suc remaining) st =
     (let st1 = (if 0 < retry_count
                 then st\<lparr>institutions_data := [], financials_data := []\<rparr> else st);
          st2 = fetch_batch env start_date end_date bank_info st1
      in batch_outcomes env start_date end_date bank_info st1 #
         (if institutions_data st2 \<noteq> [] then []
          else retry_outcomes env start_date end_date bank_info (Suc retry_count) remaining st2))"

section \<open>Properties\<close>

subsection \<open>Exceptions as values\<close>

lemma bind_exn_Inr [simp]: "bind_exn (Inr x) f = f x"
  by (simp add: bind_exn_def)

lemma bind_exn_Inl [simp]: "bind_exn (Inl e) f = Inl e"
  by (simp add: bind_exn_def)

lemma bind_exn_eq_Inr:
  "bind_exn m f = Inr y \<longleftrightarrow> (\<exists>x. m = Inr x \<and> f x = Inr y)"
  by (cases m) simp_all

subsection \<open>safe_float and base extraction\<close>

lemma safe_float_total:
  "\<not> float_overflows v \<Longrightarrow> \<exists>f. safe_float rd v = Inr f"
  by (cases v) (auto simp: safe_float_def int_to_float_def bool_to_float_def float_overflows_def split: option.splits)

lemma safe_float_finite:
  "safe_float rd v = Inr f \<Longrightarrow> is_finite f \<longleftrightarrow> \<not> reads_as_special rd v"
  by (cases v)
    (auto simp: safe_float_def int_to_float_def bool_to_float_def reads_as_special_def is_finite_def split: option.splits if_splits)

lemma safe_float_unreadable:
  "unreadable rd v \<Longrightarrow> safe_float rd v = Inr (Fin 0)"
  by (cases v) (auto simp: safe_float_def int_to_float_def bool_to_float_def unreadable_def split: option.splits)

lemma extract_fields_total:
  "list_all (\<lambda>c. \<not> float_overflows (dict_get financial c)) (map snd fs) \<Longrightarrow>
   \<exists>r. extract_fields rd financial fs = Inr r"
proof (induction fs)
  case Nil
  then show ?case by simp
next
  case (Cons p fs)
  obtain m c where p: "p = (m, c)" by (cases p)
  from Cons.prems p obtain f where f: "safe_float rd (dict_get financial c) = Inr f"
    using safe_float_total by fastforce
  from Cons obtain r where "extract_fields rd financial fs = Inr r" by auto
  with f p show ?case by simp
qed

lemma extract_fields_lookup:
  "extract_fields rd financial fs = Inr r \<Longrightarrow> distinct (map fst fs) \<Longrightarrow> (m, c) \<in> set fs \<Longrightarrow>
   \<exists>f. safe_float rd (dict_get financial c) = Inr f \<and> map_of r m = Some (VFloat f)"
proof (induction fs arbitrary: r)
  case Nil
  then show ?case by simp
next
  case (Cons p fs)
  obtain m' c' where p: "p = (m', c')" by (cases p)
  from Cons.prems(1) p obtain f' r' where
    f': "safe_float rd (dict_get financial c') = Inr f'" and
    r': "extract_fields rd financial fs = Inr r'" and
    r: "r = (m', VFloat f') # r'"
    by (auto simp: bind_exn_eq_Inr)
  show ?case
  proof (cases "(m, c) = (m', c')")
    case True
    with f' r show ?thesis by simp
  next
    case False
    with Cons.prems p have mem: "(m, c) \<in> set fs" and ne: "m \<noteq> m'"
      by (auto simp: rev_image_eqI)
    from Cons.IH[OF r' _ mem] Cons.prems(2) obtain f where
      "safe_float rd (dict_get financial c) = Inr f" "map_of r' m = Some (VFloat f)" by auto
    with r ne show ?thesis by simp
  qed
qed

lemma distinct_base_names: "distinct (map fst base_fields)"
  by (simp add: base_fields_def)

lemma base_names_not_bank_date:
  "(m, c) \<in> set base_fields \<Longrightarrow> m \<noteq> ''Bank'' \<and> m \<noteq> ''Date''"
  by (auto simp: base_fields_def)

lemma extract_basic_metrics_lookup:
  assumes "extract_basic_metrics rd bank financial = Inr metrics" and "(m, c) \<in> set base_fields"
  shows "\<exists>f. safe_float rd (dict_get financial c) = Inr f \<and> map_of metrics m = Some (VFloat f)"
proof -
  from assms(1) obtain r where r: "extract_fields rd financial base_fields = Inr r"
    and metrics: "metrics = (''Bank'', bank) # (''Date'', dict_get financial ''REPDTE'') # r"
    by (auto simp: extract_basic_metrics_def bind_exn_eq_Inr)
  from extract_fields_lookup[OF r distinct_base_names assms(2)] obtain f where
    "safe_float rd (dict_get financial c) = Inr f" "map_of r m = Some (VFloat f)" by auto
  with metrics base_names_not_bank_date[OF assms(2)] show ?thesis by simp
qed

lemma extract_basic_metrics_total:
  assumes "list_all (\<lambda>c. \<not> float_overflows (dict_get financial c)) (map snd base_fields)"
  shows "\<exists>metrics. extract_basic_metrics rd bank financial = Inr metrics"
proof -
  from extract_fields_total[OF assms] obtain r where
    "extract_fields rd financial base_fields = Inr r" by auto
  then show ?thesis by (simp add: extract_basic_metrics_def)
qed


text \<open>
  C3 (as amended). For every raw period record in which no base field is an integer
  beyond the range of a double, and whatever \<open>float()\<close> reads in strings, base
  extraction returns a row in which every one of the 49 base metrics is a float, never
  null: the float that \<open>safe_float\<close> gives the raw value. It is 0.0 when the raw value
  is absent, null, a string in which \<open>float()\<close> reads no number, or a list or dict; and
  it is finite unless the raw value is itself NaN or an infinity, or a string that
  \<open>float()\<close> reads as one, which pass through.
\<close>

theorem extract_basic_metrics_floats:
  assumes "list_all (\<lambda>c. \<not> float_overflows (dict_get financial c)) (map snd base_fields)"
  shows "\<exists>metrics. extract_basic_metrics rd bank financial = Inr metrics \<and>
           (\<forall>(m, c) \<in> set base_fields. \<exists>f.
              map_of metrics m = Some (VFloat f) \<and>
              safe_float rd (dict_get financial c) = Inr f \<and>
              (unreadable rd (dict_get financial c) \<longrightarrow> f = Fin 0) \<and>
              (is_finite f \<longleftrightarrow> \<not> reads_as_special rd (dict_get financial c)))"
proof -
  from extract_basic_metrics_total[OF assms] obtain metrics where
    ex: "extract_basic_metrics rd bank financial = Inr metrics" by auto
  have "\<exists>f. map_of metrics m = Some (VFloat f) \<and>
              safe_float rd (dict_get financial c) = Inr f \<and>
              (unreadable rd (dict_get financial c) \<longrightarrow> f = Fin 0) \<and>
              (is_finite f \<longleftrightarrow> \<not> reads_as_special rd (dict_get financial c))"
    if "(m, c) \<in> set base_fields" for m c
  proof -
    from extract_basic_metrics_lookup[OF ex that] obtain f where
      f: "safe_float rd (dict_get financial c) = Inr f" "map_of metrics m = Some (VFloat f)" by auto
    from f(1) have "unreadable rd (dict_get financial c) \<longrightarrow> f = Fin 0"
      using safe_float_unreadable by fastforce
    with f safe_float_finite[OF f(1)] show ?thesis by simp
  qed
  with ex show ?thesis by blast
qed

text \<open>
  A record with an integer, a text that is not a number and an absent field: the row has
  1500.0 and twice 0.0.
\<close>

theorem extract_basic_metrics_floats_witness:
  "list_all (\<lambda>c. \<not> float_overflows
       (dict_get [(VStr ''ASSET'', VInt 1500), (VStr ''DEP'', VStr ''n/a'')] c))
     (map snd base_fields) \<and>
   (\<exists>metrics.
      extract_basic_metrics ascii_float (VStr ''Truist Bank'')
        [(VStr ''ASSET'', VInt 1500), (VStr ''DEP'', VStr ''n/a'')] = Inr metrics \<and>
      map_of metrics ''Total Assets'' = Some (VFloat (Fin 1500)) \<and>
      map_of metrics ''Total Deposits'' = Some (VFloat (Fin 0)) \<and>
      map_of metrics ''Net Income'' = Some (VFloat (Fin 0)))"
proof -
  let ?rec = "[(VStr ''ASSET'', VInt 1500), (VStr ''DEP'', VStr ''n/a'')]"
  have clean: "list_all (\<lambda>c. \<not> float_overflows (dict_get ?rec c)) (map snd base_fields)"
    by (simp add: base_fields_def dict_get_def float_overflows_def double_limit_def)
  from extract_basic_metrics_floats[OF clean, of ascii_float "VStr ''Truist Bank''"] obtain metrics where
    ex: "extract_basic_metrics ascii_float (VStr ''Truist Bank'') ?rec = Inr metrics" and
    all: "\<forall>(m, c) \<in> set base_fields. \<exists>f.
            map_of metrics m = Some (VFloat f) \<and> safe_float ascii_float (dict_get ?rec c) = Inr f \<and>
            (unreadable ascii_float (dict_get ?rec c) \<longrightarrow> f = Fin 0) \<and>
            (is_finite f \<longleftrightarrow> \<not> reads_as_special ascii_float (dict_get ?rec c))"
    by blast
  have a: "(''Total Assets'', ''ASSET'') \<in> set base_fields"
    and d: "(''Total Deposits'', ''DEP'') \<in> set base_fields"
    and n: "(''Net Income'', ''NETINC'') \<in> set base_fields"
    by (simp_all add: base_fields_def)
  have sa: "safe_float ascii_float (dict_get ?rec ''ASSET'') = Inr (Fin 1500)"
    by (simp add: dict_get_def safe_float_def int_to_float_def bool_to_float_def double_limit_def)
  have ud: "unreadable ascii_float (dict_get ?rec ''DEP'')"
    by (simp add: dict_get_def unreadable_def ascii_float_def strip_def is_space_def
        lower_char_def float_of_decimal_def is_e_def mantissa_def digitpart_def is_digit_def)
  have un: "unreadable ascii_float (dict_get ?rec ''NETINC'')"
    by (simp add: dict_get_def unreadable_def)
  from all a sa have "map_of metrics ''Total Assets'' = Some (VFloat (Fin 1500))" by fastforce
  moreover from all d ud have "map_of metrics ''Total Deposits'' = Some (VFloat (Fin 0))"
    by fastforce
  moreover from all n un have "map_of metrics ''Net Income'' = Some (VFloat (Fin 0))"
    by fastforce
  ultimately show ?thesis using clean ex by blast
qed

text \<open>
  C3 as stated fails: a raw value \<open>"nan"\<close> is a string that \<open>float()\<close> reads as
  NaN, so the base metric is NaN.
\<close>

theorem extract_basic_metrics_nan_counterexample:
  "result_cell (extract_basic_metrics ascii_float (VStr ''Truist Bank'') [(VStr ''ASSET'', VStr ''nan'')])
     ''Total Assets'' = Some (VFloat NaN)"
  by (simp add: result_cell_def extract_basic_metrics_def base_fields_def dict_get_def
      safe_float_def int_to_float_def bool_to_float_def ascii_float_def strip_def is_space_def lower_char_def)

subsection \<open>Dates\<close>

lemma days_in_month_le: "days_in_month y m \<le> 31"
  by (simp add: days_in_month_def)

lemma to_datetime_valid:
  "to_datetime v = Inr ymd \<Longrightarrow> valid_date ymd"
  by (cases v) (auto simp: parse_yyyymmdd_def Let_def split: option.splits if_splits)

lemma date_num_order:
  assumes "valid_date a" and "valid_date b"
  shows "date_num b \<le> date_num a \<longleftrightarrow> on_or_after a b"
proof -
  obtain y m d where a: "a = (y, m, d)" by (cases a)
  obtain y0 m0 d0 where b: "b = (y0, m0, d0)" by (cases b)
  from assms a b have bounds: "m \<le> 12" "d \<le> 31" "m0 \<le> 12" "d0 \<le> 31" "1 \<le> m" "1 \<le> m0"
    using days_in_month_le[of y m] days_in_month_le[of y0 m0]
    by (auto simp: valid_date_def)
  then show ?thesis
    unfolding a b date_num_def on_or_after_def by (simp; arith)
qed

lemma valid_2019: "valid_date (2019, 1, 1)"
  by (simp add: valid_date_def days_in_month_def date_num_def)

subsection \<open>Capital base\<close>

lemma metric_float_VFloat:
  "map_of metrics k = Some (VFloat f) \<Longrightarrow> metric_float metrics k = Inr f"
  by (simp add: metric_float_def)

lemma extract_metric_float:
  assumes "extract_basic_metrics rd bank financial = Inr metrics" and "(m, c) \<in> set base_fields"
  shows "metric_float metrics m = safe_float rd (dict_get financial c)"
  using extract_basic_metrics_lookup[OF assms] by (auto simp: metric_float_VFloat)

text \<open>
  C4. For every period record, with the five amounts as base extraction reads them: when
  the report date is 2019-01-01 or later, the transition amount is
  \<open>CET1BeforeAdjustments - bankEquity + perpetualPreferredStock\<close> and the capital base
  is \<open>tier1Capital + allowanceForCreditLoss - transitionAmount\<close>; when it is earlier,
  the transition amount is 0 and the capital base \<open>tier1Capital + allowanceForCreditLoss\<close>,
  whatever the three amounts. With 100, 90 and 5 on or after the date the amount is 15.
\<close>

theorem capital_base_cecl_transition:
  assumes ex: "extract_basic_metrics rd bank financial = Inr metrics"
      and date: "to_datetime (dict_get financial ''REPDTE'') = Inr date"
      and ct1badj: "safe_float rd (dict_get financial ''CT1BADJ'') = Inr ct1badj"
      and eq: "safe_float rd (dict_get financial ''EQ'') = Inr eq"
      and eqpp: "safe_float rd (dict_get financial ''EQPP'') = Inr eqpp"
      and tier1: "safe_float rd (dict_get financial ''RBCT1J'') = Inr tier1"
      and acl: "safe_float rd (dict_get financial ''LNATRES'') = Inr acl"
  shows "calculate_capital_base metrics financial =
           (if on_or_after date (2019, 1, 1)
            then Inr (VFloat (fadd (fsub ct1badj eq) eqpp),
                      fsub (fadd tier1 acl) (fadd (fsub ct1badj eq) eqpp))
            else Inr (VInt 0, fadd tier1 acl)) \<and>
         (on_or_after date (2019, 1, 1) \<and> ct1badj = Fin 100 \<and> eq = Fin 90 \<and> eqpp = Fin 5 \<longrightarrow>
            fst (projr (calculate_capital_base metrics financial)) = VFloat (Fin 15))"
proof -
  have m1: "metric_float metrics ''Common Equity Tier 1 Before Adjustments'' = Inr ct1badj"
    using extract_metric_float[OF ex, of _ "''CT1BADJ''"] ct1badj by (simp add: base_fields_def)
  have m2: "metric_float metrics ''Bank Equity Capital'' = Inr eq"
    using extract_metric_float[OF ex, of _ "''EQ''"] eq by (simp add: base_fields_def)
  have m3: "metric_float metrics ''Perpetual Preferred Stock'' = Inr eqpp"
    using extract_metric_float[OF ex, of _ "''EQPP''"] eqpp by (simp add: base_fields_def)
  have m4: "metric_float metrics ''Tier 1 (Core) Capital'' = Inr tier1"
    using extract_metric_float[OF ex, of _ "''RBCT1J''"] tier1 by (simp add: base_fields_def)
  have m5: "metric_float metrics ''Allowance for Credit Loss'' = Inr acl"
    using extract_metric_float[OF ex, of _ "''LNATRES''"] acl by (simp add: base_fields_def)
  have ord: "date_num (2019, 1, 1) \<le> date_num date \<longleftrightarrow> on_or_after date (2019, 1, 1)"
    using date_num_order[OF to_datetime_valid[OF date] valid_2019] .
  have main: "calculate_capital_base metrics financial =
           (if on_or_after date (2019, 1, 1)
            then Inr (VFloat (fadd (fsub ct1badj eq) eqpp),
                      fsub (fadd tier1 acl) (fadd (fsub ct1badj eq) eqpp))
            else Inr (VInt 0, fadd tier1 acl))"
    unfolding calculate_capital_base_def using ord by (simp add: m1 m2 m3 m4 m5 date Let_def)
  then show ?thesis by (auto simp: fsub_def)
qed

lemma cecl_record_clean:
  "list_all (\<lambda>c. \<not> float_overflows (dict_get (cecl_record s) c)) (map snd base_fields)"
  by (simp add: base_fields_def dict_get_def float_overflows_def double_limit_def cecl_record_def)

text \<open>
  The amounts 100, 90 and 5 with tier 1 capital 2000000 and allowance 500: on 2019-03-31
  the pair is (15, 2000485), on 2018-12-31 it is (0, 2000500).
\<close>

theorem capital_base_cecl_transition_witness:
  "(\<exists>metrics. extract_basic_metrics ascii_float (VStr ''Truist Bank'') (cecl_record ''20190331'') = Inr metrics \<and>
      calculate_capital_base metrics (cecl_record ''20190331'') =
        Inr (VFloat (Fin 15), Fin 2000485)) \<and>
   (\<exists>metrics. extract_basic_metrics ascii_float (VStr ''Truist Bank'') (cecl_record ''20181231'') = Inr metrics \<and>
      calculate_capital_base metrics (cecl_record ''20181231'') =
        Inr (VInt 0, Fin 2000500))"
proof -
  have sf: "safe_float ascii_float (dict_get (cecl_record s) ''CT1BADJ'') = Inr (Fin 100)"
    "safe_float ascii_float (dict_get (cecl_record s) ''EQ'') = Inr (Fin 90)"
    "safe_float ascii_float (dict_get (cecl_record s) ''EQPP'') = Inr (Fin 5)"
    "safe_float ascii_float (dict_get (cecl_record s) ''RBCT1J'') = Inr (Fin 2000000)"
    "safe_float ascii_float (dict_get (cecl_record s) ''LNATRES'') = Inr (Fin 500)" for s
    by (simp_all add: cecl_record_def dict_get_def safe_float_def int_to_float_def bool_to_float_def double_limit_def)
  have d19: "to_datetime (dict_get (cecl_record ''20190331'') ''REPDTE'') = Inr (2019, 3, 31)"
    by (simp add: cecl_record_def dict_get_def parse_yyyymmdd_def is_digit_def digit_val_def
        nat_of_digits_def valid_date_def days_in_month_def date_num_def)
  have d18: "to_datetime (dict_get (cecl_record ''20181231'') ''REPDTE'') = Inr (2018, 12, 31)"
    by (simp add: cecl_record_def dict_get_def parse_yyyymmdd_def is_digit_def digit_val_def
        nat_of_digits_def valid_date_def days_in_month_def date_num_def)
  obtain m19 where m19: "extract_basic_metrics ascii_float (VStr ''Truist Bank'') (cecl_record ''20190331'') = Inr m19"
    using extract_basic_metrics_total[OF cecl_record_clean] by blast
  obtain m18 where m18: "extract_basic_metrics ascii_float (VStr ''Truist Bank'') (cecl_record ''20181231'') = Inr m18"
    using extract_basic_metrics_total[OF cecl_record_clean] by blast
  have "calculate_capital_base m19 (cecl_record ''20190331'') = Inr (VFloat (Fin 15), Fin 2000485)"
    using capital_base_cecl_transition[OF m19 d19 sf]
    by (simp add: on_or_after_def fsub_def)
  moreover have "calculate_capital_base m18 (cecl_record ''20181231'') = Inr (VInt 0, Fin 2000500)"
    using capital_base_cecl_transition[OF m18 d18 sf]
    by (simp add: on_or_after_def fsub_def)
  ultimately show ?thesis using m19 m18 by blast
qed

subsection \<open>Capital ratios\<close>

lemma metric_float_update_other:
  "k \<noteq> t \<Longrightarrow> metric_float (AList.update t v metrics) k = metric_float metrics k"
  by (simp add: metric_float_def update_conv')

lemma fdiv_above_floor:
  "fgt cb k \<Longrightarrow> 0 \<le> k \<Longrightarrow> \<exists>q. fdiv x cb = Inr q"
  by (cases cb; cases x) auto

lemma fle_not_fgt: "fle cb k \<Longrightarrow> \<not> fgt cb k"
  by (cases cb) auto

lemma set_ratio_result:
  assumes "metric_float metrics source = Inr x" and "fdiv x cb = Inr q"
  shows "set_ratio target source cb metrics =
           Inr (AList.update target (VFloat (fmul q (Fin 100))) metrics)"
  using assms by (simp add: set_ratio_def)

text \<open>
  C5. For every row that holds the eight amounts the ratios read: when the capital base is
  at most 1,000,000, all five capital-adequacy ratios and the composite commercial real
  estate ratio are the null marker \<open>None\<close>, not zero and not NaN; when it is above,
  each is \<open>(numerator / capitalBase) * 100\<close>, the numerator of the composite being the
  sum of its four parts.
\<close>

theorem capital_ratios_materiality_floor:
  assumes re: "metric_float metrics ''Real Estate Loans'' = Inr re"
      and cons: "metric_float metrics ''RE Construction and Land Development'' = Inr cons"
      and ci: "metric_float metrics ''Commercial and Industrial Loans'' = Inr ci"
      and ag: "metric_float metrics ''Agriculture Loans'' = Inr ag"
      and cc: "metric_float metrics ''Credit Cards'' = Inr cc"
      and mf: "metric_float metrics ''Multifamily'' = Inr mf"
      and nonres: "metric_float metrics ''Loans to Nonresidential Properties'' = Inr nonres"
      and comre: "metric_float metrics ''Commercial Real Estate Loans not Secured by Real Estate'' = Inr comre"
  shows "\<exists>m'. calculate_capital_ratios metrics capital_base = Inr m' \<and>
           (fle capital_base 1000000 \<longrightarrow>
              (\<forall>k \<in> set capital_ratio_names.
                 map_of m' k = Some VNone \<and> map_of m' k \<noteq> Some (VFloat (Fin 0)) \<and>
                 map_of m' k \<noteq> Some (VInt 0) \<and> map_of m' k \<noteq> Some (VFloat NaN))) \<and>
           (fgt capital_base 1000000 \<longrightarrow>
              (\<exists>q1 q2 q3 q4 q5 q6.
                 fdiv re capital_base = Inr q1 \<and>
                 map_of m' ''Real Estate Loans to Tier 1 + ACL'' = Some (VFloat (fmul q1 (Fin 100))) \<and>
                 fdiv cons capital_base = Inr q2 \<and>
                 map_of m' ''RE Construction and Land Development to Tier 1 + ACL'' =
                   Some (VFloat (fmul q2 (Fin 100))) \<and>
                 fdiv ci capital_base = Inr q3 \<and>
                 map_of m' ''C&I Loans to Tier 1 + ACL'' = Some (VFloat (fmul q3 (Fin 100))) \<and>
                 fdiv ag capital_base = Inr q4 \<and>
                 map_of m' ''Agriculture Loans to Tier 1 + ACL'' = Some (VFloat (fmul q4 (Fin 100))) \<and>
                 fdiv cc capital_base = Inr q5 \<and>
                 map_of m' ''Credit Cards to Tier 1 + ACL'' = Some (VFloat (fmul q5 (Fin 100))) \<and>
                 fdiv (fadd (fadd (fadd cons mf) nonres) comre) capital_base = Inr q6 \<and>
                 map_of m' ''Commercial RE to Tier 1 + ACL'' = Some (VFloat (fmul q6 (Fin 100)))))"
proof (cases "fgt capital_base 1000000")
  case False
  then have "calculate_capital_ratios metrics capital_base =
      Inr (AList.update ''Credit Cards to Tier 1 + ACL'' VNone
            (AList.update ''Commercial RE to Tier 1 + ACL'' VNone
            (AList.update ''Agriculture Loans to Tier 1 + ACL'' VNone
            (AList.update ''C&I Loans to Tier 1 + ACL'' VNone
            (AList.update ''RE Construction and Land Development to Tier 1 + ACL'' VNone
            (AList.update ''Real Estate Loans to Tier 1 + ACL'' VNone metrics))))))"
    by (simp add: calculate_capital_ratios_def)
  with False show ?thesis
    by (simp add: capital_ratio_names_def update_conv')
next
  case True
  then have nle: "\<not> fle capital_base 1000000" using fle_not_fgt by blast
  obtain q1 where q1: "fdiv re capital_base = Inr q1" using fdiv_above_floor[OF True] by fastforce
  obtain q2 where q2: "fdiv cons capital_base = Inr q2" using fdiv_above_floor[OF True] by fastforce
  obtain q3 where q3: "fdiv ci capital_base = Inr q3" using fdiv_above_floor[OF True] by fastforce
  obtain q4 where q4: "fdiv ag capital_base = Inr q4" using fdiv_above_floor[OF True] by fastforce
  obtain q5 where q5: "fdiv cc capital_base = Inr q5" using fdiv_above_floor[OF True] by fastforce
  obtain q6 where q6: "fdiv (fadd (fadd (fadd cons mf) nonres) comre) capital_base = Inr q6"
    using fdiv_above_floor[OF True] by fastforce
  define m1 where "m1 = AList.update ''Real Estate Loans to Tier 1 + ACL'' (VFloat (fmul q1 (Fin 100))) metrics"
  define m2 where "m2 = AList.update ''RE Construction and Land Development to Tier 1 + ACL'' (VFloat (fmul q2 (Fin 100))) m1"
  define m3 where "m3 = AList.update ''C&I Loans to Tier 1 + ACL'' (VFloat (fmul q3 (Fin 100))) m2"
  define m4 where "m4 = AList.update ''Agriculture Loans to Tier 1 + ACL'' (VFloat (fmul q4 (Fin 100))) m3"
  define m5 where "m5 = AList.update ''Credit Cards to Tier 1 + ACL'' (VFloat (fmul q5 (Fin 100))) m4"
  define m6 where "m6 = AList.update ''Commercial RE to Tier 1 + ACL'' (VFloat (fmul q6 (Fin 100))) m5"
  have s1: "set_ratio ''Real Estate Loans to Tier 1 + ACL'' ''Real Estate Loans'' capital_base metrics = Inr m1"
    unfolding m1_def by (rule set_ratio_result[OF re q1])
  have s2: "set_ratio ''RE Construction and Land Development to Tier 1 + ACL''
              ''RE Construction and Land Development'' capital_base m1 = Inr m2"
    unfolding m2_def by (rule set_ratio_result[OF _ q2]) (simp add: m1_def metric_float_update_other cons)
  have s3: "set_ratio ''C&I Loans to Tier 1 + ACL'' ''Commercial and Industrial Loans'' capital_base m2 = Inr m3"
    unfolding m3_def
    by (rule set_ratio_result[OF _ q3]) (simp add: m1_def m2_def metric_float_update_other ci)
  have s4: "set_ratio ''Agriculture Loans to Tier 1 + ACL'' ''Agriculture Loans'' capital_base m3 = Inr m4"
    unfolding m4_def
    by (rule set_ratio_result[OF _ q4]) (simp add: m1_def m2_def m3_def metric_float_update_other ag)
  have s5: "set_ratio ''Credit Cards to Tier 1 + ACL'' ''Credit Cards'' capital_base m4 = Inr m5"
    unfolding m5_def
    by (rule set_ratio_result[OF _ q5])
      (simp add: m1_def m2_def m3_def m4_def metric_float_update_other cc)
  have s6: "commercial_re m5 = Inr (fadd (fadd (fadd cons mf) nonres) comre)"
    by (simp add: commercial_re_def m1_def m2_def m3_def m4_def m5_def metric_float_update_other
        cons mf nonres comre)
  have res: "calculate_capital_ratios metrics capital_base = Inr m6"
    by (simp add: calculate_capital_ratios_def True s1 s2 s3 s4 s5 s6 q6 m6_def)
  have cells: "map_of m6 ''Real Estate Loans to Tier 1 + ACL'' = Some (VFloat (fmul q1 (Fin 100)))"
    "map_of m6 ''RE Construction and Land Development to Tier 1 + ACL'' = Some (VFloat (fmul q2 (Fin 100)))"
    "map_of m6 ''C&I Loans to Tier 1 + ACL'' = Some (VFloat (fmul q3 (Fin 100)))"
    "map_of m6 ''Agriculture Loans to Tier 1 + ACL'' = Some (VFloat (fmul q4 (Fin 100)))"
    "map_of m6 ''Credit Cards to Tier 1 + ACL'' = Some (VFloat (fmul q5 (Fin 100)))"
    "map_of m6 ''Commercial RE to Tier 1 + ACL'' = Some (VFloat (fmul q6 (Fin 100)))"
    by (simp_all add: m1_def m2_def m3_def m4_def m5_def m6_def update_conv')
  from res nle q1 q2 q3 q4 q5 q6 cells show ?thesis by blast
qed

text \<open>
  At a capital base of exactly 1,000,000 the ratios are \<open>None\<close>; at 2,000,000 real
  estate loans of 3,000,000 give 150 and the four parts 400,000 + 300,000 + 200,000 +
  100,000 give 50.
\<close>

theorem capital_ratios_materiality_floor_witness:
  "fle (Fin 1000000) 1000000 \<and>
   result_cell (calculate_capital_ratios ratio_row (Fin 1000000)) ''Real Estate Loans to Tier 1 + ACL''
     = Some VNone \<and>
   result_cell (calculate_capital_ratios ratio_row (Fin 1000000)) ''Commercial RE to Tier 1 + ACL''
     = Some VNone \<and>
   fgt (Fin 2000000) 1000000 \<and>
   result_cell (calculate_capital_ratios ratio_row (Fin 2000000)) ''Real Estate Loans to Tier 1 + ACL''
     = Some (VFloat (Fin 150)) \<and>
   result_cell (calculate_capital_ratios ratio_row (Fin 2000000)) ''Commercial RE to Tier 1 + ACL''
     = Some (VFloat (Fin 50))"
proof -
  have mf: "metric_float ratio_row ''Real Estate Loans'' = Inr (Fin 3000000)"
    "metric_float ratio_row ''RE Construction and Land Development'' = Inr (Fin 400000)"
    "metric_float ratio_row ''Commercial and Industrial Loans'' = Inr (Fin 1000000)"
    "metric_float ratio_row ''Agriculture Loans'' = Inr (Fin 0)"
    "metric_float ratio_row ''Credit Cards'' = Inr (Fin 200000)"
    "metric_float ratio_row ''Multifamily'' = Inr (Fin 300000)"
    "metric_float ratio_row ''Loans to Nonresidential Properties'' = Inr (Fin 200000)"
    "metric_float ratio_row ''Commercial Real Estate Loans not Secured by Real Estate'' = Inr (Fin 100000)"
    by (simp_all add: ratio_row_def metric_float_def)
  from capital_ratios_materiality_floor[OF mf, of "Fin 1000000"]
  have low: "result_cell (calculate_capital_ratios ratio_row (Fin 1000000)) ''Real Estate Loans to Tier 1 + ACL'' = Some VNone"
    "result_cell (calculate_capital_ratios ratio_row (Fin 1000000)) ''Commercial RE to Tier 1 + ACL'' = Some VNone"
    by (auto simp: result_cell_def capital_ratio_names_def)
  from capital_ratios_materiality_floor[OF mf, of "Fin 2000000"]
  have high: "result_cell (calculate_capital_ratios ratio_row (Fin 2000000)) ''Real Estate Loans to Tier 1 + ACL'' = Some (VFloat (Fin 150))"
    "result_cell (calculate_capital_ratios ratio_row (Fin 2000000)) ''Commercial RE to Tier 1 + ACL'' = Some (VFloat (Fin 50))"
    by (auto simp: result_cell_def)
  from low high show ?thesis by simp
qed

subsection \<open>Growth rate over thirteen quarters\<close>

paragraph \<open>Date strings in order\<close>

lemma foldl_digits_shift:
  "foldl (\<lambda>acc d. 10 * acc + d) a ds = a * 10 ^ length ds + foldl (\<lambda>acc d. 10 * acc + d) (0::nat) ds"
proof (induction ds arbitrary: a)
  case Nil
  show ?case by simp
next
  case (Cons d ds)
  show ?case
    using Cons[of "10 * a + d"] Cons[of d] by (simp add: algebra_simps)
qed

lemma nat_of_digits_Cons:
  "nat_of_digits (d # ds) = d * 10 ^ length ds + nat_of_digits ds"
  using foldl_digits_shift[of d ds] by (simp add: nat_of_digits_def)

lemma nat_of_digits_Nil [simp]: "nat_of_digits [] = 0"
  by (simp add: nat_of_digits_def)

lemma nat_of_digits_bound:
  "list_all (\<lambda>d. d < 10) ds \<Longrightarrow> nat_of_digits ds < 10 ^ length ds"
proof (induction ds)
  case Nil
  show ?case by simp
next
  case (Cons d ds)
  then have d: "d \<le> 9" and b: "nat_of_digits ds < 10 ^ length ds" by simp_all
  define p where "p = (10::nat) ^ length ds"
  from d have "d * p \<le> 9 * p" by simp
  with b have "d * p + nat_of_digits ds < 10 * p" unfolding p_def by arith
  then show ?case by (simp add: nat_of_digits_Cons p_def)
qed

lemma digit_val_less:
  "is_digit c \<Longrightarrow> is_digit d \<Longrightarrow> c < d \<longleftrightarrow> digit_val c < digit_val d"
  by (auto simp: is_digit_def digit_val_def less_char_def)

lemma digit_val_eq:
  assumes "is_digit c" and "is_digit d"
  shows "c = d \<longleftrightarrow> digit_val c = digit_val d"
proof
  assume "c = d"
  then show "digit_val c = digit_val d" by simp
next
  assume e: "digit_val c = digit_val d"
  from assms e have "(of_char c :: nat) = of_char d"
    unfolding is_digit_def digit_val_def by arith
  then show "c = d" by simp
qed

lemma digit_val_bound: "is_digit c \<Longrightarrow> digit_val c < 10"
  by (auto simp: is_digit_def digit_val_def)

lemma weighted_less:
  fixes x y u v p :: nat
  assumes "u < p" and "v < p"
  shows "x * p + u < y * p + v \<longleftrightarrow> x < y \<or> (x = y \<and> u < v)"
proof (cases "x < y")
  case True
  then have "Suc x * p \<le> y * p" by (intro mult_le_mono1) simp
  with assms True show ?thesis by simp
next
  case False
  show ?thesis
  proof (cases "x = y")
    case True
    then show ?thesis by simp
  next
    case ne: False
    with False have "y < x" by simp
    then have "Suc y * p \<le> x * p" by (intro mult_le_mono1) simp
    with assms False ne show ?thesis by simp
  qed
qed

lemma digit_strings_less:
  "length s = length t \<Longrightarrow> list_all is_digit s \<Longrightarrow> list_all is_digit t \<Longrightarrow>
   s < t \<longleftrightarrow> nat_of_digits (map digit_val s) < nat_of_digits (map digit_val t)"
proof (induction s t rule: list_induct2)
  case Nil
  show ?case by simp
next
  case (Cons c s d t)
  then have cd: "is_digit c" "is_digit d" and st: "list_all is_digit s" "list_all is_digit t"
    by simp_all
  have bs: "nat_of_digits (map digit_val s) < 10 ^ length s"
    using nat_of_digits_bound[of "map digit_val s"] st(1)
    by (simp add: list_all_iff digit_val_bound)
  have bt: "nat_of_digits (map digit_val t) < 10 ^ length s"
    using nat_of_digits_bound[of "map digit_val t"] st(2) Cons.hyps
    by (simp add: list_all_iff digit_val_bound)
  show ?case
    using Cons.IH[OF st] weighted_less[OF bs bt, of "digit_val c" "digit_val d"]
      digit_val_less[OF cd] digit_val_eq[OF cd] Cons.hyps
    by (simp add: nat_of_digits_Cons)
qed

lemma parse_yyyymmdd_num:
  assumes "parse_yyyymmdd s = Some ymd"
  shows "date_num ymd = nat_of_digits (map digit_val s) \<and> length s = 8 \<and> list_all is_digit s"
proof -
  from assms have len: "length s = 8" and dig: "list_all is_digit s"
    and ymd: "ymd = (nat_of_digits (take 4 (map digit_val s)),
                     nat_of_digits (take 2 (drop 4 (map digit_val s))),
                     nat_of_digits (drop 6 (map digit_val s)))"
    by (auto simp: parse_yyyymmdd_def Let_def split: if_splits)
  from len obtain a b c d e f g h where s: "s = [a, b, c, d, e, f, g, h]"
    by (auto simp: length_Suc_conv numeral_eq_Suc)
  show ?thesis
    using len dig unfolding ymd s by (simp add: date_num_def nat_of_digits_def)
qed

lemma date_strings_in_order:
  assumes "parse_yyyymmdd s = Some a" and "parse_yyyymmdd t = Some b"
      and "date_num a < date_num b"
  shows "s \<le> t"
  using digit_strings_less[of s t] parse_yyyymmdd_num[OF assms(1)] parse_yyyymmdd_num[OF assms(2)]
    assms(3)
  by simp

paragraph \<open>One record through the calculator\<close>

lemma to_datetime_Inr:
  "to_datetime v = Inr ymd \<Longrightarrow> \<exists>s. v = VStr s \<and> parse_yyyymmdd s = Some ymd"
  by (cases v) (auto split: option.splits)

lemma clean_record_date:
  assumes "clean_record d"
  shows "\<exists>s ymd. map_of d (VStr ''REPDTE'') = Some (VStr s) \<and> dict_get d ''REPDTE'' = VStr s \<and>
           parse_yyyymmdd s = Some ymd \<and> to_datetime (dict_get d ''REPDTE'') = Inr ymd \<and>
           report_num d = date_num ymd \<and>
           report_timestamp d = VTimestamp (fst ymd) (fst (snd ymd)) (snd (snd ymd))"
proof -
  from assms obtain ymd where t: "to_datetime (dict_get d ''REPDTE'') = Inr ymd"
    by (auto simp: clean_record_def split: sum.splits)
  from to_datetime_Inr[OF t] obtain s where
    s: "dict_get d ''REPDTE'' = VStr s" "parse_yyyymmdd s = Some ymd" by blast
  from s(1) have "map_of d (VStr ''REPDTE'') = Some (VStr s)"
    by (auto simp: dict_get_def split: option.splits)
  with s t show ?thesis by (simp add: report_num_def report_timestamp_def)
qed












paragraph \<open>The records of one bank in order\<close>

lemma repdte_keys_clean:
  "list_all clean_record recs \<Longrightarrow>
   repdte_keys (map VDict recs) = Inr (map (\<lambda>d. (dict_get d ''REPDTE'', d)) recs)"
proof (induction recs)
  case Nil
  show ?case by simp
next
  case (Cons d recs)
  then have c: "clean_record d" by simp
  from clean_record_date[OF c] obtain s where
    "map_of d (VStr ''REPDTE'') = Some (VStr s)" "dict_get d ''REPDTE'' = VStr s" by blast
  with Cons show ?case by simp
qed

lemma clean_records_in_order:
  assumes "clean_record d" and "clean_record d'" and "report_num d < report_num d'"
  shows "str_of (dict_get d ''REPDTE'') \<le> str_of (dict_get d' ''REPDTE'')"
proof -
  from clean_record_date[OF assms(1)] obtain s a where
    s: "dict_get d ''REPDTE'' = VStr s" "parse_yyyymmdd s = Some a" "report_num d = date_num a"
    by blast
  from clean_record_date[OF assms(2)] obtain t b where
    t: "dict_get d' ''REPDTE'' = VStr t" "parse_yyyymmdd t = Some b" "report_num d' = date_num b"
    by blast
  from date_strings_in_order[OF s(2) t(2)] assms(3) s t show ?thesis by simp
qed

lemma sorted_by_repdte_clean:
  assumes clean: "list_all clean_record recs" and asc: "sorted_wrt (<) (map report_num recs)"
  shows "sorted_by_repdte (map VDict recs) = Inr recs"
proof -
  let ?kds = "map (\<lambda>d. (dict_get d ''REPDTE'', d)) recs"
  have snd: "map snd ?kds = recs" by (simp add: comp_def)
  have strs: "list_all (\<lambda>kd. is_str (fst kd)) ?kds"
  proof -
    have "is_str (dict_get d ''REPDTE'')" if "d \<in> set recs" for d
    proof -
      from that clean have "clean_record d" by (simp add: list_all_iff)
      from clean_record_date[OF this] show ?thesis by auto
    qed
    then show ?thesis by (simp add: list_all_iff)
  qed
  from asc have "sorted_wrt (\<lambda>d d'. report_num d < report_num d') recs"
    by (simp add: sorted_wrt_map)
  then have "sorted_wrt (\<lambda>d d'. str_of (dict_get d ''REPDTE'') \<le> str_of (dict_get d' ''REPDTE'')) recs"
  proof (rule sorted_wrt_mono_rel[rotated])
    fix d d' assume "d \<in> set recs" "d' \<in> set recs" "report_num d < report_num d'"
    with clean show "str_of (dict_get d ''REPDTE'') \<le> str_of (dict_get d' ''REPDTE'')"
      by (intro clean_records_in_order) (simp_all add: list_all_iff)
  qed
  then have "sorted (map (\<lambda>kd. str_of (fst kd)) ?kds)"
    by (simp add: sorted_wrt_map comp_def)
  then have "sort_key (\<lambda>kd. str_of (fst kd)) ?kds = ?kds"
    by (rule sort_key_id_if_sorted)
  with snd strs show ?thesis
    by (simp add: sorted_by_repdte_def repdte_keys_clean[OF clean] comp_def)
qed



paragraph \<open>Sorting by the report date\<close>












paragraph \<open>Thirteen quarters\<close>



lemma quarter_record_date [simp]:
  "dict_get (quarter_record s a) ''REPDTE'' = VStr s"
  by (simp add: quarter_record_def dict_get_def)









subsection \<open>The client\<close>

lemma get_data_calls: "snd (get_data env n req) = Suc n"
  by (auto simp: get_data_def split: sum.splits)

lemma get_institutions_calls: "snd (get_institutions env n fs flds) = Suc n"
  using get_data_calls[of env n "institutions_request fs flds"]
  by (auto simp: get_institutions_def split: prod.splits)

lemma get_financials_calls: "snd (get_financials env n cert f flds) = Suc n"
  using get_data_calls[of env n "financials_request cert f flds"]
  by (auto simp: get_financials_def split: prod.splits)

lemma get_data_request_failure:
  "request_failure (http env n req) \<Longrightarrow>
   get_data env n req = (Inr (VDict [(VStr ''data'', VList [])]), Suc n)"
  by (cases "http env n req") (auto simp: get_data_def response_json_def split: option.splits)

text \<open>
  C7 (as amended). When the call meets no answer in time, no connection, a 4xx or 5xx
  status, or a body that is not JSON, no exception leaves the client: \<open>get_data\<close>
  returns the envelope with an empty data list, after that one call, and
  \<open>get_institutions\<close> and \<open>get_financials\<close> return an empty list.
\<close>

theorem request_failure_empty_collection:
  "(request_failure (http env n req) \<longrightarrow>
      get_data env n req = (Inr (VDict [(VStr ''data'', VList [])]), Suc n)) \<and>
   (request_failure (http env n (institutions_request fs flds)) \<longrightarrow>
      get_institutions env n fs flds = (Inr (VList []), Suc n)) \<and>
   (request_failure (http env n (financials_request cert f flds)) \<longrightarrow>
      get_financials env n cert f flds = (Inr (VList []), Suc n))"
  by (simp add: get_data_request_failure get_institutions_def get_financials_def
      envelope_data_def)

text \<open>Three calls that meet a 503, a timeout and a body that is not JSON.\<close>

theorem request_failure_empty_collection_witness:
  "request_failure (http (scripted [Response 503 None, TimedOut, Response 200 None]) 0
      (institutions_request [Lit ''CERT:628''] ''NAME,CERT'')) \<and>
   get_data (scripted [Response 503 None, TimedOut, Response 200 None]) 0
      (institutions_request [Lit ''CERT:628''] ''NAME,CERT'')
     = (Inr (VDict [(VStr ''data'', VList [])]), 1) \<and>
   request_failure (http (scripted [Response 503 None, TimedOut, Response 200 None]) 1
      (institutions_request [Lit ''CERT:628''] ''NAME,CERT'')) \<and>
   get_institutions (scripted [Response 503 None, TimedOut, Response 200 None]) 1
      [Lit ''CERT:628''] ''NAME,CERT'' = (Inr (VList []), 2) \<and>
   request_failure (http (scripted [Response 503 None, TimedOut, Response 200 None]) 2
      (financials_request (VStr ''628'') ''REPDTE:[20240101 TO 20240331]'' ''CERT,REPDTE'')) \<and>
   get_financials (scripted [Response 503 None, TimedOut, Response 200 None]) 2
      (VStr ''628'') ''REPDTE:[20240101 TO 20240331]'' ''CERT,REPDTE'' = (Inr (VList []), 3)"
proof -
  let ?env = "scripted [Response 503 None, TimedOut, Response 200 None]"
  have t0: "request_failure (http ?env 0 req)" for req by (simp add: scripted_def)
  have t1: "request_failure (http ?env 1 req)" for req by (simp add: scripted_def)
  have t2: "request_failure (http ?env 2 req)" for req by (simp add: scripted_def)
  from request_failure_empty_collection[of ?env 0 "institutions_request [Lit ''CERT:628''] ''NAME,CERT''"]
    request_failure_empty_collection[of ?env 1 _ "[Lit ''CERT:628'']" "''NAME,CERT''"]
    request_failure_empty_collection[of ?env 2 _ _ "''CERT,REPDTE''" "VStr ''628''" "''REPDTE:[20240101 TO 20240331]''"]
    t0 t1 t2
  show ?thesis by (simp add: numeral_2_eq_2 numeral_3_eq_3)
qed

text \<open>
  C7 as stated fails. A body that is JSON but not an object (a list, here) is returned by
  \<open>get_data\<close> as it is, and \<^verbatim>\<open>data.get\<close>, outside the \<^verbatim>\<open>try\<close>, raises
  \<open>AttributeError\<close> out of \<open>get_institutions\<close> and \<open>get_financials\<close>. A
  status that is no success but below 400 is not rejected: with status 300 the records of
  the body are returned, not an empty collection.
\<close>

theorem malformed_body_counterexample:
  "get_data (scripted [Response 200 (Some (VList []))]) 0
      (institutions_request [Lit ''CERT:628''] ''NAME,CERT'')
     = (Inr (VList []), 1) \<and>
   get_institutions (scripted [Response 200 (Some (VList []))]) 0 [Lit ''CERT:628''] ''NAME,CERT''
     = (Inl AttributeError, 1) \<and>
   get_financials (scripted [Response 200 (Some (VList []))]) 0
      (VStr ''628'') ''REPDTE:[20240101 TO 20240331]'' ''CERT,REPDTE''
     = (Inl AttributeError, 1) \<and>
   get_institutions (scripted [Response 300 (Some (VDict [(VStr ''data'', VList [VInt 1])]))]) 0
      [Lit ''CERT:628''] ''NAME,CERT''
     = (Inr (VList [VInt 1]), 1)"
  by (simp add: scripted_def get_data_def get_institutions_def get_financials_def
      response_json_def envelope_data_def)

subsection \<open>The cache\<close>

lemma load_cached_truthy:
  "py_truthy (load_cached_data w s e) \<Longrightarrow>
   files w (get_cache_path s e) = Some (JsonFile (load_cached_data w s e))"
  by (auto simp: load_cached_data_def split: option.splits cache_file.splits)

lemma load_cached_file:
  "files w (get_cache_path s e) = Some (JsonFile v) \<Longrightarrow> load_cached_data w s e = v"
  by (simp add: load_cached_data_def)

lemma py_truthy_dataset [simp]: "py_truthy (dataset inst fin)"
  by (simp add: dataset_def)

lemma save_to_cache_http_calls [simp]:
  "http_calls (save_to_cache env w d s e) = http_calls w"
  by (simp add: save_to_cache_def Let_def split: write_outcome.splits)

lemma save_to_cache_written:
  "disk env (writes w) = Written \<Longrightarrow>
   files (save_to_cache env w d s e) (get_cache_path s e) = Some (JsonFile d)"
  by (simp add: save_to_cache_def Let_def)

lemma generate_fallback_result:
  "generate_fallback_data env w s e = (Inr r, w') \<Longrightarrow>
   \<exists>inst fin n. fallback_banks env s e BANK_INFO ([], [], draws w) = Inr (inst, fin, n) \<and>
      r = dataset inst fin \<and> w' = save_to_cache env (w\<lparr>draws := n\<rparr>) r s e"
  by (auto simp: generate_fallback_data_def Let_def split: sum.splits prod.splits)

lemma generate_fallback_frame:
  assumes "draws w = draws w'"
  shows "fst (generate_fallback_data env w s e) = fst (generate_fallback_data env w' s e)"
    and "http_calls (snd (generate_fallback_data env w s e)) = http_calls w"
  using assms
  by (auto simp: generate_fallback_data_def Let_def split: sum.splits prod.splits)

lemma fetch_data_result_truthy:
  assumes "fetch_data env w roster s e = (Inr r, w1)"
  shows "py_truthy r"
proof (cases "py_truthy (load_cached_data w s e)")
  case True
  with assms show ?thesis by (auto simp: fetch_data_def Let_def)
next
  case False
  with assms show ?thesis
    by (auto simp: fetch_data_def Let_def split: if_splits dest!: generate_fallback_result)
qed

text \<open>
  C6. When a first invocation of \<open>fetch_data\<close> returned a dataset and left the cache
  populated for the key (the entry was there, or the write of the result succeeded), the
  file of the key holds that dataset, and a second invocation with the same key, whatever
  the roster and the state of the network, returns it at once: the same dataset, the world
  unchanged, no network call made.
\<close>

theorem fetch_data_idempotent_on_cache:
  assumes first: "fetch_data env w roster s e = (Inr r, w1)"
      and populated: "py_truthy (load_cached_data w s e) \<or> disk env (writes w) = Written"
  shows "files w1 (get_cache_path s e) = Some (JsonFile r) \<and>
         fetch_data env' w1 roster' s e = (Inr r, w1) \<and>
         http_calls (snd (fetch_data env' w1 roster' s e)) = http_calls w1"
proof -
  have stored: "files w1 (get_cache_path s e) = Some (JsonFile r)"
  proof (cases "py_truthy (load_cached_data w s e)")
    case True
    with first have "r = load_cached_data w s e" "w1 = w"
      by (auto simp: fetch_data_def Let_def)
    with True show ?thesis using load_cached_truthy by simp
  next
    case False
    with populated have wr: "disk env (writes w) = Written" by simp
    from first False show ?thesis
      by (auto simp: fetch_data_def Let_def save_to_cache_written wr
          split: if_splits dest!: generate_fallback_result)
  qed
  have "py_truthy r" using fetch_data_result_truthy[OF first] .
  with stored have "fetch_data env' w1 roster' s e = (Inr r, w1)"
    by (simp add: fetch_data_def Let_def load_cached_file)
  with stored show ?thesis by simp
qed

lemma without_cache_frame [simp]:
  "initial_state (without_cache w s e) = initial_state w"
  "draws (without_cache w s e) = draws w"
  "http_calls (without_cache w s e) = http_calls w"
  "load_cached_data (without_cache w s e) s e = VNone"
  by (simp_all add: initial_state_def without_cache_def load_cached_data_def)

lemma names_of_update:
  "names_of (AList.update k v d) = (if k \<in> set (names_of d) then names_of d else names_of d @ [k])"
  by (simp add: names_of_def update_keys)

lemma names_of_Nil [simp]: "names_of [] = []"
  by (simp add: names_of_def)

subsection \<open>One roster item\<close>

lemma store_bank_api_failures:
  "api_failures (snd (store_bank env s e bank_data st)) = api_failures st"
  by (auto simp: store_bank_def Let_def split: sum.splits prod.splits)

lemma fetch_item_api_failures:
  "api_failures (snd (fetch_item env s e item st)) = api_failures st"
  by (auto simp: fetch_item_def Let_def store_bank_api_failures
      split: option.splits sum.splits prod.splits)

lemma store_bank_keys:
  assumes "set (names_of (financials_data st)) \<subseteq> set (names_of (institutions_data st))"
  shows "set (names_of (financials_data (snd (store_bank env s e bank_data st))))
           \<subseteq> set (names_of (institutions_data (snd (store_bank env s e bank_data st))))"
  using assms
  by (auto simp: store_bank_def Let_def names_of_update split: sum.splits prod.splits if_splits)

lemma fetch_item_keys:
  assumes "set (names_of (financials_data st)) \<subseteq> set (names_of (institutions_data st))"
  shows "set (names_of (financials_data (snd (fetch_item env s e item st))))
           \<subseteq> set (names_of (institutions_data (snd (fetch_item env s e item st))))"
proof -
  have "set (names_of (financials_data (st\<lparr>calls := n\<rparr>)))
          \<subseteq> set (names_of (institutions_data (st\<lparr>calls := n\<rparr>)))" for n
    using assms by simp
  from store_bank_keys[OF this] assms show ?thesis
    by (auto simp: fetch_item_def Let_def split: option.splits sum.splits prod.splits)
qed

lemma store_bank_keys_eq:
  assumes "fst (store_bank env s e bank_data st) = None"
      and "names_of (financials_data st) = names_of (institutions_data st)"
  shows "names_of (financials_data (snd (store_bank env s e bank_data st)))
           = names_of (institutions_data (snd (store_bank env s e bank_data st)))"
  using assms
  by (auto simp: store_bank_def Let_def names_of_update split: sum.splits prod.splits if_splits)

lemma fetch_item_keys_eq:
  assumes "fst (fetch_item env s e item st) = None"
      and "names_of (financials_data st) = names_of (institutions_data st)"
  shows "names_of (financials_data (snd (fetch_item env s e item st)))
           = names_of (institutions_data (snd (fetch_item env s e item st)))"
proof -
  have "names_of (financials_data (st\<lparr>calls := n\<rparr>))
          = names_of (institutions_data (st\<lparr>calls := n\<rparr>))" for n
    using assms(2) by simp
  from store_bank_keys_eq[OF _ this] assms show ?thesis
    by (auto simp: fetch_item_def Let_def split: option.splits sum.splits prod.splits if_splits)
qed



text \<open>A lookup that finds no institution is skipped and not counted.\<close>

lemma fetch_item_no_match:
  assumes "item_filters item = Some fs"
      and "fst (get_institutions env (calls st) fs institution_fields) = Inr v"
      and "\<not> py_truthy v"
  shows "fst (fetch_item env s e item st) = None"
  using assms by (auto simp: fetch_item_def Let_def split: prod.splits)

lemma store_bank_calls:
  "calls st \<le> calls (snd (store_bank env s e bank_data st))"
proof -
  have "n = Suc (calls st)"
    if "get_financials env (calls st) cert f financial_fields = (r, n)" for cert f r n
    using get_financials_calls[of env "calls st" cert f financial_fields] that by simp
  then show ?thesis
    by (fastforce simp: store_bank_def Let_def split: sum.splits prod.splits)
qed

lemma fetch_item_calls:
  "calls st \<le> calls (snd (fetch_item env s e item st))"
  "has_lookup item \<Longrightarrow> Suc (calls st) \<le> calls (snd (fetch_item env s e item st))"
proof -
  have n: "n = Suc (calls st)"
    if "get_institutions env (calls st) fs institution_fields = (r, n)" for fs r n
    using get_institutions_calls[of env "calls st" fs institution_fields] that by simp
  have sb: "Suc (calls st) \<le> calls (snd (store_bank env s e bd (st\<lparr>calls := Suc (calls st)\<rparr>)))" for bd
    using store_bank_calls[where st="st\<lparr>calls := Suc (calls st)\<rparr>" and env=env and s=s and e=e and bank_data=bd] by simp
  show "has_lookup item \<Longrightarrow> Suc (calls st) \<le> calls (snd (fetch_item env s e item st))"
    using sb
    by (auto simp: fetch_item_def has_lookup_def Let_def dest!: n
        split: option.splits sum.splits prod.splits)
  then show "calls st \<le> calls (snd (fetch_item env s e item st))"
    by (cases "has_lookup item") (auto simp: fetch_item_def has_lookup_def)
qed

text \<open>An item whose lookup raises leaves the body with that exception.\<close>

lemma fetch_item_lookup_raises:
  assumes "item_filters item = Some fs"
      and "fst (get_institutions env (calls st) fs institution_fields) = Inl ex"
  shows "fst (fetch_item env s e item st) = Some ex"
  using assms by (auto simp: fetch_item_def Let_def split: prod.splits)

subsection \<open>The loops\<close>

lemma fetch_batch_mono:
  "api_failures st \<le> api_failures (fetch_batch env s e items st)"
proof (induction items arbitrary: st)
  case Nil
  then show ?case by simp
next
  case (Cons item items)
  obtain r st' where f: "fetch_item env s e item st = (r, st')" by (cases "fetch_item env s e item st")
  then have a: "api_failures st' = api_failures st"
    using fetch_item_api_failures[of env s e item st] by simp
  show ?case
  proof (cases r)
    case None
    with f a Cons.IH[of st'] show ?thesis by simp
  next
    case (Some ex)
    with f a Cons.IH[of "st'\<lparr>api_failures := Suc (api_failures st')\<rparr>"] show ?thesis by simp
  qed
qed

lemma fetch_batch_keys:
  "set (names_of (financials_data st)) \<subseteq> set (names_of (institutions_data st)) \<Longrightarrow>
   set (names_of (financials_data (fetch_batch env s e items st)))
     \<subseteq> set (names_of (institutions_data (fetch_batch env s e items st)))"
proof (induction items arbitrary: st)
  case Nil
  then show ?case by simp
next
  case (Cons item items)
  obtain r st' where f: "fetch_item env s e item st = (r, st')" by (cases "fetch_item env s e item st")
  with fetch_item_keys[OF Cons.prems, of env s e item]
  have k: "set (names_of (financials_data st')) \<subseteq> set (names_of (institutions_data st'))" by simp
  show ?case
  proof (cases r)
    case None
    with f Cons.IH[OF k] show ?thesis by simp
  next
    case (Some ex)
    from k have "set (names_of (financials_data (st'\<lparr>api_failures := Suc (api_failures st')\<rparr>)))
      \<subseteq> set (names_of (institutions_data (st'\<lparr>api_failures := Suc (api_failures st')\<rparr>)))" by simp
    from Cons.IH[OF this] Some f show ?thesis by simp
  qed
qed

lemma fetch_batch_keys_eq:
  "names_of (financials_data st) = names_of (institutions_data st) \<Longrightarrow>
   api_failures (fetch_batch env s e items st) = api_failures st \<Longrightarrow>
   names_of (financials_data (fetch_batch env s e items st))
     = names_of (institutions_data (fetch_batch env s e items st))"
proof (induction items arbitrary: st)
  case Nil
  then show ?case by simp
next
  case (Cons item items)
  obtain r st' where f: "fetch_item env s e item st = (r, st')" by (cases "fetch_item env s e item st")
  then have a: "api_failures st' = api_failures st"
    using fetch_item_api_failures[of env s e item st] by simp
  show ?case
  proof (cases r)
    case None
    with f fetch_item_keys_eq[OF _ Cons.prems(1), of env s e item]
    have k: "names_of (financials_data st') = names_of (institutions_data st')" by simp
    from Cons.prems(2) None f a have "api_failures (fetch_batch env s e items st') = api_failures st'"
      by simp
    from Cons.IH[OF k this] None f show ?thesis by simp
  next
    case (Some ex)
    from fetch_batch_mono[of "st'\<lparr>api_failures := Suc (api_failures st')\<rparr>" env s e items]
      Cons.prems(2) Some f a
    have False by simp
    then show ?thesis ..
  qed
qed


lemma retry_loop_mono:
  "api_failures st \<le> api_failures (retry_loop env s e roster k n st)"
proof (induction n arbitrary: st k)
  case 0
  then show ?case by simp
next
  case (Suc n)
  let ?st1 = "if 0 < k then st\<lparr>institutions_data := [], financials_data := []\<rparr> else st"
  let ?st2 = "fetch_batch env s e roster ?st1"
  have "api_failures st = api_failures ?st1" by simp
  also have "\<dots> \<le> api_failures ?st2" by (rule fetch_batch_mono)
  finally have a: "api_failures st \<le> api_failures ?st2" .
  show ?case
  proof (cases "institutions_data ?st2 \<noteq> []")
    case True
    with a show ?thesis by (simp add: Let_def)
  next
    case False
    with a Suc.IH[of ?st2 "Suc k"] show ?thesis by (simp add: Let_def)
  qed
qed

lemma retry_loop_keys:
  "set (names_of (financials_data st)) \<subseteq> set (names_of (institutions_data st)) \<Longrightarrow>
   set (names_of (financials_data (retry_loop env s e roster k n st)))
     \<subseteq> set (names_of (institutions_data (retry_loop env s e roster k n st)))"
proof (induction n arbitrary: st k)
  case 0
  then show ?case by simp
next
  case (Suc n)
  let ?st1 = "if 0 < k then st\<lparr>institutions_data := [], financials_data := []\<rparr> else st"
  let ?st2 = "fetch_batch env s e roster ?st1"
  have "set (names_of (financials_data ?st1)) \<subseteq> set (names_of (institutions_data ?st1))"
    using Suc.prems by simp
  then have k2: "set (names_of (financials_data ?st2)) \<subseteq> set (names_of (institutions_data ?st2))"
    by (rule fetch_batch_keys)
  show ?case
  proof (cases "institutions_data ?st2 \<noteq> []")
    case True
    with k2 show ?thesis by (simp add: Let_def)
  next
    case False
    with Suc.IH[OF k2, of "Suc k"] show ?thesis by (simp add: Let_def)
  qed
qed

lemma retry_loop_keys_eq:
  "names_of (financials_data st) = names_of (institutions_data st) \<Longrightarrow>
   api_failures (retry_loop env s e roster k n st) = api_failures st \<Longrightarrow>
   names_of (financials_data (retry_loop env s e roster k n st))
     = names_of (institutions_data (retry_loop env s e roster k n st))"
proof (induction n arbitrary: st k)
  case 0
  then show ?case by simp
next
  case (Suc n)
  let ?st1 = "if 0 < k then st\<lparr>institutions_data := [], financials_data := []\<rparr> else st"
  let ?st2 = "fetch_batch env s e roster ?st1"
  have e1: "names_of (financials_data ?st1) = names_of (institutions_data ?st1)"
    using Suc.prems(1) by simp
  have a1: "api_failures ?st1 = api_failures st" by simp
  have m2: "api_failures ?st1 \<le> api_failures ?st2" by (rule fetch_batch_mono)
  show ?case
  proof (cases "institutions_data ?st2 \<noteq> []")
    case True
    then have r: "retry_loop env s e roster k (Suc n) st = ?st2" by (simp add: Let_def)
    with Suc.prems(2) a1 have "api_failures ?st2 = api_failures ?st1" by simp
    from fetch_batch_keys_eq[OF e1 this] r show ?thesis by simp
  next
    case False
    then have r: "retry_loop env s e roster k (Suc n) st = retry_loop env s e roster (Suc k) n ?st2"
      by (simp add: Let_def)
    from retry_loop_mono[of ?st2 env s e roster "Suc k" n] m2 a1 Suc.prems(2) r
    have a2: "api_failures ?st2 = api_failures ?st1"
      and a3: "api_failures (retry_loop env s e roster (Suc k) n ?st2) = api_failures ?st2"
      by simp_all
    from fetch_batch_keys_eq[OF e1 a2]
    have "names_of (financials_data ?st2) = names_of (institutions_data ?st2)" .
    from Suc.IH[OF this a3] r show ?thesis by simp
  qed
qed


lemma fetch_batch_calls:
  "calls st + length (filter has_lookup items) \<le> calls (fetch_batch env s e items st)"
proof (induction items arbitrary: st)
  case Nil
  then show ?case by simp
next
  case (Cons item items)
  obtain r st' where f: "fetch_item env s e item st = (r, st')" by (cases "fetch_item env s e item st")
  with fetch_item_calls[where st=st and env=env and s=s and e=e and item=item]
  have c: "calls st + (if has_lookup item then 1 else 0) \<le> calls st'" by auto
  show ?case
  proof (cases r)
    case None
    with f c Cons.IH[of st'] show ?thesis by auto
  next
    case (Some ex)
    with f c Cons.IH[of "st'\<lparr>api_failures := Suc (api_failures st')\<rparr>"] show ?thesis by auto
  qed
qed

lemma retry_loop_calls_mono:
  "calls st \<le> calls (retry_loop env s e roster k n st)"
proof (induction n arbitrary: st k)
  case 0
  then show ?case by simp
next
  case (Suc n)
  let ?st1 = "if 0 < k then st\<lparr>institutions_data := [], financials_data := []\<rparr> else st"
  let ?st2 = "fetch_batch env s e roster ?st1"
  have "calls st = calls ?st1" by simp
  also have "\<dots> \<le> calls ?st2" using fetch_batch_calls[where st="?st1" and items=roster and env=env and s=s and e=e] by simp
  finally have a: "calls st \<le> calls ?st2" .
  show ?case
  proof (cases "institutions_data ?st2 \<noteq> []")
    case True
    with a show ?thesis by (simp add: Let_def)
  next
    case False
    with a Suc.IH[where st="?st2" and k="Suc k"] show ?thesis by (simp add: Let_def)
  qed
qed

lemma retry_loop_calls:
  "calls st + length (filter has_lookup roster) \<le> calls (retry_loop env s e roster k (Suc n) st)"
proof -
  let ?st1 = "if 0 < k then st\<lparr>institutions_data := [], financials_data := []\<rparr> else st"
  let ?st2 = "fetch_batch env s e roster ?st1"
  have "calls st + length (filter has_lookup roster) = calls ?st1 + length (filter has_lookup roster)"
    by simp
  also have "\<dots> \<le> calls ?st2" by (rule fetch_batch_calls)
  finally have a: "calls st + length (filter has_lookup roster) \<le> calls ?st2" .
  show ?thesis
  proof (cases "institutions_data ?st2 \<noteq> []")
    case True
    with a show ?thesis by (simp add: Let_def)
  next
    case False
    with a retry_loop_calls_mono[where st="?st2" and env=env and s=s and e=e and roster=roster and k="Suc k" and n=n] show ?thesis by (simp add: Let_def)
  qed
qed

text \<open>Every item that raises is counted: the counter grows by their number.\<close>

lemma fetch_batch_counts:
  "api_failures (fetch_batch env s e items st) =
     api_failures st + length (filter raised (batch_outcomes env s e items st))"
proof (induction items arbitrary: st)
  case Nil
  then show ?case by simp
next
  case (Cons item items)
  obtain r st' where f: "fetch_item env s e item st = (r, st')" by (cases "fetch_item env s e item st")
  then have a: "api_failures st' = api_failures st"
    using fetch_item_api_failures[of env s e item st] by simp
  show ?case
  proof (cases r)
    case None
    with f a Cons.IH[of st'] show ?thesis by (simp add: raised_def)
  next
    case (Some ex)
    with f a Cons.IH[of "st'\<lparr>api_failures := Suc (api_failures st')\<rparr>"] show ?thesis
      by (simp add: raised_def)
  qed
qed

lemma batch_outcomes_length:
  "length (batch_outcomes env s e items st) = length items"
proof (induction items arbitrary: st)
  case Nil
  then show ?case by simp
next
  case (Cons item items)
  then show ?case by (simp split: prod.splits option.splits)
qed

lemma retry_loop_counts:
  "api_failures (retry_loop env s e roster k n st) =
     api_failures st + length (filter raised (concat (retry_outcomes env s e roster k n st)))"
proof (induction n arbitrary: st k)
  case 0
  then show ?case by simp
next
  case (Suc n)
  let ?st1 = "if 0 < k then st\<lparr>institutions_data := [], financials_data := []\<rparr> else st"
  let ?st2 = "fetch_batch env s e roster ?st1"
  have b: "api_failures ?st2 = api_failures st + length (filter raised (batch_outcomes env s e roster ?st1))"
    using fetch_batch_counts[where env=env and s=s and e=e and items=roster and st="?st1"] by simp
  show ?case
  proof (cases "institutions_data ?st2 \<noteq> []")
    case True
    with b show ?thesis by (simp add: Let_def)
  next
    case False
    with b Suc.IH[where k="Suc k" and st="?st2"] show ?thesis by (simp add: Let_def)
  qed
qed

lemma filter_concat_ge:
  "xs \<in> set xss \<Longrightarrow> length (filter P xs) \<le> length (filter P (concat xss))"
  by (induction xss) auto

subsection \<open>Fallback synthesis\<close>

lemma fallback_records_length:
  "length (fst (fallback_records env b start qs n)) = length qs"
proof (induction qs arbitrary: n)
  case Nil
  show ?case by simp
next
  case (Cons q qs)
  obtain r n1 where a: "fallback_record env b start q n = (r, n1)"
    by (cases "fallback_record env b start q n")
  obtain rs n2 where b: "fallback_records env b start qs n1 = (rs, n2)"
    by (cases "fallback_records env b start qs n1")
  from Cons[of n1] b have "length rs = length qs" by simp
  with a b show ?case by simp
qed

lemma update_values:
  "list_all P (map snd al) \<Longrightarrow> P v \<Longrightarrow> list_all P (map snd (AList.update k v al))"
  by (induction al) auto

lemma fallback_banks_result:
  assumes "to_datetime (VStr s) = Inr ds" and "to_datetime (VStr e) = Inr de"
      and "distinct (names_of inst @ map (\<lambda>b. VStr (snd b)) banks)"
      and "names_of fin = names_of inst"
      and "list_all (holds_records (length (quarter_ends ds de))) (map snd fin)"
  shows "\<exists>inst' fin' n'. fallback_banks env s e banks (inst, fin, n) = Inr (inst', fin', n') \<and>
           names_of inst' = names_of inst @ map (\<lambda>b. VStr (snd b)) banks \<and>
           names_of fin' = names_of inst' \<and>
           list_all (holds_records (length (quarter_ends ds de))) (map snd fin')"
  using assms(3-5)
proof (induction banks arbitrary: inst fin n)
  case Nil
  then show ?case by simp
next
  case (Cons b banks)
  obtain recs n1 where r: "fallback_records env (snd b) ds (quarter_ends ds de) n = (recs, n1)"
    by (cases "fallback_records env (snd b) ds (quarter_ends ds de) n")
  then have len: "length recs = length (quarter_ends ds de)"
    using fallback_records_length[of env "snd b" ds "quarter_ends ds de" n] by simp
  define inst1 where "inst1 = AList.update (VStr (snd b))
      (VDict [(VStr ''NAME'', VStr (snd b)), (VStr ''CERT'', VStr (fst b))]) inst"
  define fin1 where "fin1 = AList.update (VStr (snd b)) (VList recs) fin"
  from Cons.prems(1) have notin: "VStr (snd b) \<notin> set (names_of inst)" by auto
  then have n1: "names_of inst1 = names_of inst @ [VStr (snd b)]"
    by (simp add: inst1_def names_of_update)
  from notin Cons.prems(2) have n2: "names_of fin1 = names_of inst1"
    by (simp add: fin1_def names_of_update n1)
  from Cons.prems(1) n1 have d: "distinct (names_of inst1 @ map (\<lambda>b. VStr (snd b)) banks)"
    by simp
  have v: "list_all (holds_records (length (quarter_ends ds de))) (map snd fin1)"
    unfolding fin1_def by (rule update_values[OF Cons.prems(3)]) (simp add: holds_records_def len)
  from Cons.IH[OF d n2 v, of n1] obtain inst' fin' n' where
    res: "fallback_banks env s e banks (inst1, fin1, n1) = Inr (inst', fin', n')"
      "names_of inst' = names_of inst1 @ map (\<lambda>b. VStr (snd b)) banks"
      "names_of fin' = names_of inst'"
      "list_all (holds_records (length (quarter_ends ds de))) (map snd fin')"
    by blast
  have "fallback_banks env s e (b # banks) (inst, fin, n) = fallback_banks env s e banks (inst1, fin1, n1)"
    using assms(1,2) by (simp add: Let_def r inst1_def fin1_def)
  with res n1 show ?case by simp
qed

lemma distinct_bank_names: "distinct bank_names"
  by (simp add: bank_names_def BANK_INFO_def)

lemma generate_fallback_dataset:
  assumes "to_datetime (VStr s) = Inr ds" and "to_datetime (VStr e) = Inr de"
  shows "\<exists>inst fin w'. generate_fallback_data env w s e = (Inr (dataset inst fin), w') \<and>
           names_of inst = bank_names \<and> names_of fin = bank_names \<and>
           list_all (holds_records (length (quarter_ends ds de))) (map snd fin)"
proof -
  have d: "distinct (names_of [] @ map (\<lambda>b. VStr (snd b)) BANK_INFO)"
    using distinct_bank_names by (simp add: bank_names_def)
  from fallback_banks_result[OF assms d, of "[]" env "draws w"] obtain inst fin n where
    fb: "fallback_banks env s e BANK_INFO ([], [], draws w) = Inr (inst, fin, n)" and
    nm: "names_of inst = bank_names" "names_of fin = bank_names"
      "list_all (holds_records (length (quarter_ends ds de))) (map snd fin)"
    by (auto simp: bank_names_def)
  from fb have "generate_fallback_data env w s e =
      (Inr (dataset inst fin),
       save_to_cache env (w\<lparr>draws := n\<rparr>) (dataset inst fin) s e)"
    by (simp add: generate_fallback_data_def Let_def)
  with nm show ?thesis by blast
qed

lemma generate_fallback_names:
  assumes "generate_fallback_data env w s e = (Inr r, w')"
  shows "\<exists>inst fin. r = dataset inst fin \<and> names_of fin = names_of inst"
proof -
  from generate_fallback_result[OF assms] obtain inst fin n where
    fb: "fallback_banks env s e BANK_INFO ([], [], draws w) = Inr (inst, fin, n)"
    and r: "r = dataset inst fin" by blast
  from fb obtain ds de where "to_datetime (VStr s) = Inr ds" "to_datetime (VStr e) = Inr de"
    by (cases "to_datetime (VStr s)"; cases "to_datetime (VStr e)")
       (auto simp: BANK_INFO_def Let_def)
  from generate_fallback_dataset[OF this, of env w] assms r show ?thesis
    by (auto simp: dataset_def)
qed

subsection \<open>fetch_data\<close>

lemma initial_state_keys [simp]:
  "names_of (financials_data (initial_state w)) = names_of (institutions_data (initial_state w))"
  "api_failures (initial_state w) = 0"
  by (simp_all add: initial_state_def)

text \<open>
  C1 (as amended). For every roster of 3 entities and every window of two dates, when the
  cache misses and, in a round the retry loop performs, 2 of the 3 entities raise an
  exception while being fetched, the failures counted are above half the roster, fallback
  synthesis is triggered, and the returned dataset is the synthetic one: an institution
  record and a list of period records, one per quarter end of the window, for each of the
  nine banks of \<^verbatim>\<open>BANK_INFO\<close>, hence for every roster entity that is one of them.
  (By \<open>fetch_item_lookup_raises\<close> an entity whose lookup raises is such an entity; by
  \<open>fetch_item_no_match\<close> one whose lookup finds no institution is skipped and not
  counted.)
\<close>

theorem fallback_on_counted_failures:
  assumes "length roster = 3"
      and "\<not> py_truthy (load_cached_data w s e)"
      and "list_ex (\<lambda>outcomes. 2 \<le> length (filter raised outcomes))
             (retry_outcomes env s e roster 0 max_retries (initial_state w))"
      and "to_datetime (VStr s) = Inr ds" and "to_datetime (VStr e) = Inr de"
  shows "length roster div 2
           < api_failures (retry_loop env s e roster 0 max_retries (initial_state w)) \<and>
         (\<exists>inst fin w'.
            fetch_data env w roster s e = (Inr (dataset inst fin), w') \<and>
            names_of inst = bank_names \<and> names_of fin = bank_names \<and>
            list_all (holds_records (length (quarter_ends ds de))) (map snd fin))"
proof -
  let ?st = "retry_loop env s e roster 0 max_retries (initial_state w)"
  let ?out = "retry_outcomes env s e roster 0 max_retries (initial_state w)"
  from assms(3) obtain outcomes where "outcomes \<in> set ?out" "2 \<le> length (filter raised outcomes)"
    by (auto simp: list_ex_iff)
  then have "2 \<le> length (filter raised (concat ?out))"
    using filter_concat_ge[of outcomes ?out raised] by simp
  then have "2 \<le> api_failures ?st"
    by (simp add: retry_loop_counts)
  with assms(1) have th: "length roster div 2 < api_failures ?st" by simp
  with assms(2) have "fetch_data env w roster s e =
      generate_fallback_data env (w\<lparr>http_calls := calls ?st\<rparr>) s e"
    by (simp add: fetch_data_def Let_def)
  with generate_fallback_dataset[OF assms(4,5), of env "w\<lparr>http_calls := calls ?st\<rparr>"] th
  show ?thesis by simp
qed

text \<open>
  C10. When the cache file of the key exists and parses: a truthy value is returned at
  once, the world unchanged (no network access); a falsy value (the empty JSON object, for
  one) is a cache miss and fresh data is fetched. \<open>fetch_data\<close> then returns what it
  returns with no cache file at all, after as many network calls, and never the parsed
  value: it runs the retry loop over the roster, which makes a call or more for every
  roster item that has a lookup, and returns the dataset the loop collected from the
  network or, under the fallback condition, the synthetic one.
\<close>

theorem falsy_cache_entry_is_a_miss:
  assumes "files w (get_cache_path s e) = Some (JsonFile v)"
  shows "(py_truthy v \<longrightarrow> fetch_data env w roster s e = (Inr v, w)) \<and>
         (\<not> py_truthy v \<longrightarrow>
            fst (fetch_data env w roster s e) = fst (fetch_data env (without_cache w s e) roster s e) \<and>
            http_calls (snd (fetch_data env w roster s e)) =
              http_calls (snd (fetch_data env (without_cache w s e) roster s e)) \<and>
            fst (fetch_data env w roster s e) \<noteq> Inr v \<and>
            http_calls (snd (fetch_data env w roster s e)) =
              calls (retry_loop env s e roster 0 max_retries (initial_state w)) \<and>
            http_calls w + length (filter has_lookup roster)
              \<le> http_calls (snd (fetch_data env w roster s e)) \<and>
            fst (fetch_data env w roster s e) =
              (if length roster div 2
                    < api_failures (retry_loop env s e roster 0 max_retries (initial_state w))
                  \<or> institutions_data (retry_loop env s e roster 0 max_retries (initial_state w)) = []
               then fst (generate_fallback_data env
                      (w\<lparr>http_calls := calls (retry_loop env s e roster 0 max_retries (initial_state w))\<rparr>)
                      s e)
               else Inr (dataset
                      (institutions_data (retry_loop env s e roster 0 max_retries (initial_state w)))
                      (financials_data (retry_loop env s e roster 0 max_retries (initial_state w))))))"
proof (cases "py_truthy v")
  case True
  with assms show ?thesis by (simp add: fetch_data_def Let_def load_cached_file)
next
  case False
  have l1: "load_cached_data w s e = v" using assms by (rule load_cached_file)
  let ?st = "retry_loop env s e roster 0 max_retries (initial_state w)"
  have same: "fst (fetch_data env w roster s e) = fst (fetch_data env (without_cache w s e) roster s e)"
    using False
    by (simp add: fetch_data_def Let_def l1
        generate_fallback_frame(1)[of "w\<lparr>http_calls := calls ?st\<rparr>"
          "(without_cache w s e)\<lparr>http_calls := calls ?st\<rparr>"])
  have calls: "http_calls (snd (fetch_data env w roster s e)) =
      http_calls (snd (fetch_data env (without_cache w s e) roster s e))"
    using False
    by (simp add: fetch_data_def Let_def l1 generate_fallback_frame(2))
  have neq: "fst (fetch_data env w roster s e) \<noteq> Inr v"
  proof
    assume "fst (fetch_data env w roster s e) = Inr v"
    then have "fetch_data env w roster s e = (Inr v, snd (fetch_data env w roster s e))"
      by (metis prod.collapse)
    from fetch_data_result_truthy[OF this] False show False by simp
  qed
  have made: "http_calls (snd (fetch_data env w roster s e)) = calls ?st"
    using False by (simp add: fetch_data_def Let_def l1 generate_fallback_frame(2))
  have "calls (initial_state w) + length (filter has_lookup roster) \<le> calls ?st"
    unfolding max_retries_def numeral_3_eq_3 by (rule retry_loop_calls)
  then have bound: "http_calls w + length (filter has_lookup roster)
      \<le> http_calls (snd (fetch_data env w roster s e))"
    by (simp add: made initial_state_def)
  have fresh: "fst (fetch_data env w roster s e) =
      (if length roster div 2 < api_failures ?st \<or> institutions_data ?st = []
       then fst (generate_fallback_data env (w\<lparr>http_calls := calls ?st\<rparr>) s e)
       else Inr (dataset (institutions_data ?st) (financials_data ?st)))"
    using False by (simp add: fetch_data_def Let_def l1)
  from same calls neq made bound fresh False show ?thesis by simp
qed

text \<open>
  C8 (as amended). Every dataset \<open>fetch_data\<close> produces on a cache miss, by live fetch
  or by fallback synthesis, has every entity name of \<open>financials_data\<close> in
  \<open>institutions_data\<close>. The two dicts have the same names, in the same order, when the
  dataset is synthetic (the fallback condition holds) and when no exception was counted
  during the fetch.
\<close>

theorem dataset_key_sets:
  assumes miss: "\<not> py_truthy (load_cached_data w s e)"
      and res: "fetch_data env w roster s e = (Inr r, w')"
  shows "\<exists>inst fin. r = dataset inst fin \<and>
           set (names_of fin) \<subseteq> set (names_of inst) \<and>
           (length roster div 2 < api_failures (retry_loop env s e roster 0 max_retries (initial_state w))
            \<or> institutions_data (retry_loop env s e roster 0 max_retries (initial_state w)) = []
            \<or> api_failures (retry_loop env s e roster 0 max_retries (initial_state w)) = 0
              \<longrightarrow> names_of fin = names_of inst)"
proof -
  let ?st = "retry_loop env s e roster 0 max_retries (initial_state w)"
  show ?thesis
  proof (cases "length roster div 2 < api_failures ?st \<or> institutions_data ?st = []")
    case True
    with miss res have "generate_fallback_data env (w\<lparr>http_calls := calls ?st\<rparr>) s e = (Inr r, w')"
      by (simp add: fetch_data_def Let_def)
    from generate_fallback_names[OF this] obtain inst fin where
      "r = dataset inst fin" "names_of fin = names_of inst" by blast
    then have "r = dataset inst fin \<and> set (names_of fin) \<subseteq> set (names_of inst) \<and>
        names_of fin = names_of inst" by simp
    then show ?thesis by blast
  next
    case False
    with miss res have r: "r = dataset (institutions_data ?st) (financials_data ?st)"
      by (auto simp: fetch_data_def Let_def)
    have sub: "set (names_of (financials_data ?st)) \<subseteq> set (names_of (institutions_data ?st))"
      by (rule retry_loop_keys) simp
    have eq: "api_failures ?st = 0 \<longrightarrow>
        names_of (financials_data ?st) = names_of (institutions_data ?st)"
    proof
      assume "api_failures ?st = 0"
      then show "names_of (financials_data ?st) = names_of (institutions_data ?st)"
        by (intro retry_loop_keys_eq) simp_all
    qed
    from r sub False eq have "r = dataset (institutions_data ?st) (financials_data ?st) \<and>
           set (names_of (financials_data ?st)) \<subseteq> set (names_of (institutions_data ?st)) \<and>
           (length roster div 2 < api_failures ?st \<or> institutions_data ?st = []
            \<or> api_failures ?st = 0
              \<longrightarrow> names_of (financials_data ?st) = names_of (institutions_data ?st))"
      by simp
    then show ?thesis by (intro exI)
  qed
qed

subsection \<open>Concrete runs\<close>

lemmas client_defs =
  get_data_def get_institutions_def get_financials_def response_json_def envelope_data_def
  institutions_request_def financials_request_def

lemmas fetch_defs =
  fetch_item_def store_bank_def item_filters_def fmt_def institution_fields_def

lemmas script_defs =
  scripted_def institution_body_def financials_body_def no_match_body_def

lemma roster3_eq:
  "roster3 =
     [VDict [(VStr ''cert'', VStr ''33124''), (VStr ''name'', VStr ''Goldman Sachs Bank USA'')],
      VDict [(VStr ''cert'', VStr ''628''),
             (VStr ''name'', VStr ''JPMorgan Chase Bank, National Association'')],
      VDict [(VStr ''cert'', VStr ''3510''),
             (VStr ''name'', VStr ''Bank of America, National Association'')]]"
  by (simp add: roster3_def BANK_INFO_def roster_item_def)

lemma roster3_length: "length roster3 = 3"
  by (simp add: roster3_eq)

lemma empty_world_miss [simp]: "load_cached_data empty_world s e = VNone"
  by (simp add: load_cached_data_def empty_world_def)

lemma dates_2024:
  "to_datetime (VStr ''20240101'') = Inr (2024, 1, 1)"
  "to_datetime (VStr ''20240331'') = Inr (2024, 3, 31)"
  by (simp_all add: parse_yyyymmdd_def is_digit_def digit_val_def nat_of_digits_def
      valid_date_def days_in_month_def date_num_def leap_year_def)

lemma one_quarter_2024: "quarter_ends (2024, 1, 1) (2024, 3, 31) = [(2024, 3, 31)]"
  by (simp add: quarter_ends_def date_num_def upt_rec)

lemma two_unresolved_loop:
  "retry_loop two_unresolved s e roster3 0 max_retries (initial_state empty_world) =
     \<lparr>institutions_data =
        [(VStr ''Bank of America, National Association'',
          VDict [(VStr ''NAME'', VStr ''Bank of America, National Association''),
                 (VStr ''CERT'', VStr ''3510'')])],
      financials_data =
        [(VStr ''Bank of America, National Association'',
          VList [VDict [(VStr ''REPDTE'', VStr ''20240331'')]])],
      api_failures = 0, calls = 4\<rparr>"
  by (simp add: roster3_eq max_retries_def numeral_3_eq_3 initial_state_def empty_world_def
      two_unresolved_def client_defs fetch_defs script_defs List.map_filter_def)

lemma two_unresolved_fetch:
  "fst (fetch_data two_unresolved empty_world roster3 s e) =
     Inr (dataset
       [(VStr ''Bank of America, National Association'',
          VDict [(VStr ''NAME'', VStr ''Bank of America, National Association''),
                 (VStr ''CERT'', VStr ''3510'')])]
       [(VStr ''Bank of America, National Association'',
          VList [VDict [(VStr ''REPDTE'', VStr ''20240331'')]])])"
  by (simp add: fetch_data_def Let_def two_unresolved_loop roster3_length)

lemma two_raising_loop:
  "retry_loop two_raising s e roster3 0 max_retries (initial_state empty_world) =
     \<lparr>institutions_data =
        [(VStr ''Bank of America, National Association'',
          VDict [(VStr ''NAME'', VStr ''Bank of America, National Association''),
                 (VStr ''CERT'', VStr ''3510'')])],
      financials_data =
        [(VStr ''Bank of America, National Association'',
          VList [VDict [(VStr ''REPDTE'', VStr ''20240331'')]])],
      api_failures = 2, calls = 4\<rparr>"
  by (simp add: roster3_eq max_retries_def numeral_3_eq_3 initial_state_def empty_world_def
      two_raising_def client_defs fetch_defs script_defs List.map_filter_def)

lemma one_broken_financials_loop:
  "retry_loop one_broken_financials s e roster3 0 max_retries (initial_state empty_world) =
     \<lparr>institutions_data =
        [(VStr ''Goldman Sachs Bank USA'',
          VDict [(VStr ''NAME'', VStr ''Goldman Sachs Bank USA''), (VStr ''CERT'', VStr ''33124'')]),
         (VStr ''JPMorgan Chase Bank, National Association'',
          VDict [(VStr ''NAME'', VStr ''JPMorgan Chase Bank, National Association''),
                 (VStr ''CERT'', VStr ''628'')]),
         (VStr ''Bank of America, National Association'',
          VDict [(VStr ''NAME'', VStr ''Bank of America, National Association''),
                 (VStr ''CERT'', VStr ''3510'')])],
      financials_data =
        [(VStr ''Goldman Sachs Bank USA'',
          VList [VDict [(VStr ''REPDTE'', VStr ''20240331'')]]),
         (VStr ''Bank of America, National Association'',
          VList [VDict [(VStr ''REPDTE'', VStr ''20240331'')]])],
      api_failures = 1, calls = 6\<rparr>"
  by (simp add: roster3_eq max_retries_def numeral_3_eq_3 initial_state_def empty_world_def
      one_broken_financials_def client_defs fetch_defs script_defs List.map_filter_def)

lemma one_broken_financials_fetch:
  "fst (fetch_data one_broken_financials empty_world roster3 s e) =
     Inr (dataset
        [(VStr ''Goldman Sachs Bank USA'',
          VDict [(VStr ''NAME'', VStr ''Goldman Sachs Bank USA''), (VStr ''CERT'', VStr ''33124'')]),
         (VStr ''JPMorgan Chase Bank, National Association'',
          VDict [(VStr ''NAME'', VStr ''JPMorgan Chase Bank, National Association''),
                 (VStr ''CERT'', VStr ''628'')]),
         (VStr ''Bank of America, National Association'',
          VDict [(VStr ''NAME'', VStr ''Bank of America, National Association''),
                 (VStr ''CERT'', VStr ''3510'')])]
        [(VStr ''Goldman Sachs Bank USA'',
          VList [VDict [(VStr ''REPDTE'', VStr ''20240331'')]]),
         (VStr ''Bank of America, National Association'',
          VList [VDict [(VStr ''REPDTE'', VStr ''20240331'')]])])"
  by (simp add: fetch_data_def Let_def one_broken_financials_loop roster3_length)




lemma two_raising_outcomes:
  "retry_outcomes two_raising s e roster3 0 max_retries (initial_state empty_world) =
     [[Some AttributeError, Some AttributeError, None]]"
  by (simp add: roster3_eq max_retries_def numeral_3_eq_3 initial_state_def empty_world_def
      two_raising_def client_defs fetch_defs script_defs List.map_filter_def)

text \<open>
  Two of the three lookups raise in the one round of the run: the counter stands at 2, and
  the dataset returned has the nine banks with one record each for the first quarter of
  2024.
\<close>

theorem fallback_on_counted_failures_witness:
  "length roster3 = 3 \<and>
   \<not> py_truthy (load_cached_data empty_world ''20240101'' ''20240331'') \<and>
   retry_outcomes two_raising ''20240101'' ''20240331'' roster3 0 max_retries
       (initial_state empty_world) = [[Some AttributeError, Some AttributeError, None]] \<and>
   length (filter raised [Some AttributeError, Some AttributeError, None]) = 2 \<and>
   api_failures (retry_loop two_raising ''20240101'' ''20240331'' roster3 0 max_retries
       (initial_state empty_world)) = 2 \<and>
   (\<exists>inst fin w'.
      fetch_data two_raising empty_world roster3 ''20240101'' ''20240331''
        = (Inr (dataset inst fin), w') \<and>
      names_of inst = bank_names \<and> names_of fin = bank_names \<and>
      list_all (holds_records 1) (map snd fin))"
proof -
  have miss: "\<not> py_truthy (load_cached_data empty_world ''20240101'' ''20240331'')" by simp
  have out: "retry_outcomes two_raising ''20240101'' ''20240331'' roster3 0 max_retries
       (initial_state empty_world) = [[Some AttributeError, Some AttributeError, None]]"
    by (rule two_raising_outcomes)
  have two: "length (filter raised [Some AttributeError, Some AttributeError, None]) = 2"
    by (simp add: raised_def)
  have ex: "list_ex (\<lambda>outcomes. 2 \<le> length (filter raised outcomes))
             (retry_outcomes two_raising ''20240101'' ''20240331'' roster3 0 max_retries
                (initial_state empty_world))"
    unfolding out using two by simp
  have q: "length (quarter_ends (2024, 1, 1) (2024, 3, 31)) = 1"
    by (simp only: one_quarter_2024) simp
  have run: "\<exists>inst fin w'.
      fetch_data two_raising empty_world roster3 ''20240101'' ''20240331''
        = (Inr (dataset inst fin), w') \<and>
      names_of inst = bank_names \<and> names_of fin = bank_names \<and>
      list_all (holds_records 1) (map snd fin)"
    using fallback_on_counted_failures[OF roster3_length miss ex dates_2024]
    unfolding q by blast
  have cnt: "api_failures (retry_loop two_raising ''20240101'' ''20240331'' roster3 0 max_retries
       (initial_state empty_world)) = 2"
    by (simp add: two_raising_loop)
  show ?thesis
    by (intro conjI) (rule roster3_length miss out two cnt run)+
qed

text \<open>
  C1 as stated fails. Two of the three roster entities resolve to no institution: the loop
  skips them without counting a failure, the threshold is not reached, and the dataset
  returned holds the third entity alone.
\<close>

theorem unresolved_entities_counterexample:
  "length roster3 = 3 \<and>
   fst (get_institutions two_unresolved 0 [Lit ''CERT:'', Lit ''33124''] institution_fields)
     = Inr (VList []) \<and>
   fst (get_institutions two_unresolved 1 [Lit ''CERT:'', Lit ''628''] institution_fields)
     = Inr (VList []) \<and>
   api_failures (retry_loop two_unresolved ''20240101'' ''20240331'' roster3 0 max_retries
       (initial_state empty_world)) = 0 \<and>
   result_names (fst (fetch_data two_unresolved empty_world roster3 ''20240101'' ''20240331''))
       ''institutions_data'' = [VStr ''Bank of America, National Association''] \<and>
   result_names (fst (fetch_data two_unresolved empty_world roster3 ''20240101'' ''20240331''))
       ''financials_data'' = [VStr ''Bank of America, National Association'']"
proof -
  have a: "fst (get_institutions two_unresolved 0 [Lit ''CERT:'', Lit ''33124''] institution_fields)
     = Inr (VList [])"
    and b: "fst (get_institutions two_unresolved 1 [Lit ''CERT:'', Lit ''628''] institution_fields)
     = Inr (VList [])"
    by (simp_all add: two_unresolved_def client_defs script_defs)
  have c: "api_failures (retry_loop two_unresolved ''20240101'' ''20240331'' roster3 0 max_retries
       (initial_state empty_world)) = 0"
    by (simp add: two_unresolved_loop)
  have d: "result_names (fst (fetch_data two_unresolved empty_world roster3 ''20240101'' ''20240331''))
       ''institutions_data'' = [VStr ''Bank of America, National Association'']"
    and e: "result_names (fst (fetch_data two_unresolved empty_world roster3 ''20240101'' ''20240331''))
       ''financials_data'' = [VStr ''Bank of America, National Association'']"
    by (simp_all add: two_unresolved_fetch result_names_def dataset_def names_of_def)
  show ?thesis
    by (intro conjI) (rule roster3_length a b c d e)+
qed

lemma world_with_cache_state [simp]:
  "initial_state (world_with_cache v s e) = initial_state empty_world"
  "http_calls (world_with_cache v s e) = 0"
  by (simp_all add: initial_state_def world_with_cache_def empty_world_def)

lemma roster3_lookups: "length (filter has_lookup roster3) = 3"
  by (simp add: roster3_eq has_lookup_def item_filters_def)

text \<open>
  A cache file holding \<open>{}\<close>: the three lookups of the roster and the one fetch of
  financials are made, four calls, and the dataset returned is the one the network gave.
  A cache file holding \<open>[1]\<close>: that value is returned, the world unchanged.
\<close>

theorem falsy_cache_entry_is_a_miss_witness:
  "files (world_with_cache (VDict []) ''20240101'' ''20240331'')
     (get_cache_path ''20240101'' ''20240331'') = Some (JsonFile (VDict [])) \<and>
   \<not> py_truthy (VDict []) \<and>
   length (filter has_lookup roster3) = 3 \<and>
   http_calls (world_with_cache (VDict []) ''20240101'' ''20240331'') = 0 \<and>
   http_calls (snd (fetch_data two_unresolved (world_with_cache (VDict []) ''20240101'' ''20240331'')
          roster3 ''20240101'' ''20240331'')) = 4 \<and>
   fst (fetch_data two_unresolved (world_with_cache (VDict []) ''20240101'' ''20240331'')
          roster3 ''20240101'' ''20240331'') = Inr only_bank_of_america \<and>
   fst (fetch_data two_unresolved
          (without_cache (world_with_cache (VDict []) ''20240101'' ''20240331'')
             ''20240101'' ''20240331'')
          roster3 ''20240101'' ''20240331'') = Inr only_bank_of_america \<and>
   files (world_with_cache (VList [VInt 1]) ''20240101'' ''20240331'')
     (get_cache_path ''20240101'' ''20240331'') = Some (JsonFile (VList [VInt 1])) \<and>
   py_truthy (VList [VInt 1]) \<and>
   fetch_data two_unresolved (world_with_cache (VList [VInt 1]) ''20240101'' ''20240331'')
          roster3 ''20240101'' ''20240331''
     = (Inr (VList [VInt 1]), world_with_cache (VList [VInt 1]) ''20240101'' ''20240331'')"
proof -
  let ?w = "world_with_cache (VDict []) ''20240101'' ''20240331''"
  let ?st = "retry_loop two_unresolved ''20240101'' ''20240331'' roster3 0 max_retries (initial_state ?w)"
  have f: "files (world_with_cache v ''20240101'' ''20240331'')
     (get_cache_path ''20240101'' ''20240331'') = Some (JsonFile v)" for v
    by (simp add: world_with_cache_def)
  have nt: "\<not> py_truthy (VDict [])" and t: "py_truthy (VList [VInt 1])" by simp_all
  have h0: "http_calls ?w = 0" by simp
  have st: "calls ?st = 4" "api_failures ?st = 0" "institutions_data ?st \<noteq> []"
    "dataset (institutions_data ?st) (financials_data ?st) = only_bank_of_america"
    by (simp_all add: two_unresolved_loop only_bank_of_america_def)
  from falsy_cache_entry_is_a_miss[OF f, of "VDict []" two_unresolved roster3] nt
  have m: "http_calls (snd (fetch_data two_unresolved ?w roster3 ''20240101'' ''20240331'')) = calls ?st"
    and r: "fst (fetch_data two_unresolved ?w roster3 ''20240101'' ''20240331'') =
      (if length roster3 div 2 < api_failures ?st \<or> institutions_data ?st = []
       then fst (generate_fallback_data two_unresolved (?w\<lparr>http_calls := calls ?st\<rparr>)
              ''20240101'' ''20240331'')
       else Inr (dataset (institutions_data ?st) (financials_data ?st)))"
    and same: "fst (fetch_data two_unresolved ?w roster3 ''20240101'' ''20240331'')
     = fst (fetch_data two_unresolved (without_cache ?w ''20240101'' ''20240331'')
              roster3 ''20240101'' ''20240331'')"
    by blast+
  from m st(1) have a: "http_calls (snd (fetch_data two_unresolved ?w roster3 ''20240101'' ''20240331'')) = 4"
    by simp
  from r st(2,3,4) have b: "fst (fetch_data two_unresolved ?w roster3 ''20240101'' ''20240331'')
      = Inr only_bank_of_america"
    by (simp add: roster3_length)
  from same b have b': "fst (fetch_data two_unresolved (without_cache ?w ''20240101'' ''20240331'')
              roster3 ''20240101'' ''20240331'') = Inr only_bank_of_america"
    by simp
  from falsy_cache_entry_is_a_miss[OF f, of "VList [VInt 1]" two_unresolved roster3] t
  have c: "fetch_data two_unresolved (world_with_cache (VList [VInt 1]) ''20240101'' ''20240331'')
          roster3 ''20240101'' ''20240331''
     = (Inr (VList [VInt 1]), world_with_cache (VList [VInt 1]) ''20240101'' ''20240331'')"
    by blast
  show ?thesis
    by (intro conjI) (rule f nt t roster3_lookups h0 a b b' c)+
qed

text \<open>
  A first fetch that writes the dataset of one bank; the second call, on a network that
  would answer otherwise and with an empty roster, returns that dataset.
\<close>

theorem fetch_data_idempotent_on_cache_witness:
  "fst (fetch_data two_unresolved empty_world roster3 ''20240101'' ''20240331'')
     = Inr only_bank_of_america \<and>
   disk two_unresolved (writes empty_world) = Written \<and>
   files (snd (fetch_data two_unresolved empty_world roster3 ''20240101'' ''20240331''))
     (get_cache_path ''20240101'' ''20240331'') = Some (JsonFile only_bank_of_america) \<and>
   fetch_data first_round_raises
       (snd (fetch_data two_unresolved empty_world roster3 ''20240101'' ''20240331''))
       [] ''20240101'' ''20240331''
     = (Inr only_bank_of_america,
        snd (fetch_data two_unresolved empty_world roster3 ''20240101'' ''20240331'')) \<and>
   http_calls (snd (fetch_data first_round_raises
       (snd (fetch_data two_unresolved empty_world roster3 ''20240101'' ''20240331''))
       [] ''20240101'' ''20240331''))
     = http_calls (snd (fetch_data two_unresolved empty_world roster3 ''20240101'' ''20240331''))"
proof -
  let ?X = "fetch_data two_unresolved empty_world roster3 ''20240101'' ''20240331''"
  have r: "fst ?X = Inr only_bank_of_america"
    by (simp add: two_unresolved_fetch only_bank_of_america_def)
  then have first: "?X = (Inr only_bank_of_america, snd ?X)"
    by (metis prod.collapse)
  have wr: "disk two_unresolved (writes empty_world) = Written"
    by (simp add: two_unresolved_def scripted_def)
  then have pop: "py_truthy (load_cached_data empty_world ''20240101'' ''20240331'') \<or>
      disk two_unresolved (writes empty_world) = Written" by simp
  from fetch_data_idempotent_on_cache[OF first pop, of first_round_raises "[]"] r wr
  show ?thesis by simp
qed

text \<open>
  C8 as stated fails. The institution of the second bank is stored, then the fetch of its
  financials raises; one failure of three is below the threshold, and the live dataset
  returned has three institutions and two financials.
\<close>

theorem broken_financials_counterexample:
  "api_failures (retry_loop one_broken_financials ''20240101'' ''20240331'' roster3 0 max_retries
       (initial_state empty_world)) = 1 \<and>
   result_names (fst (fetch_data one_broken_financials empty_world roster3 ''20240101'' ''20240331''))
       ''institutions_data'' =
     [VStr ''Goldman Sachs Bank USA'', VStr ''JPMorgan Chase Bank, National Association'',
      VStr ''Bank of America, National Association''] \<and>
   result_names (fst (fetch_data one_broken_financials empty_world roster3 ''20240101'' ''20240331''))
       ''financials_data'' =
     [VStr ''Goldman Sachs Bank USA'', VStr ''Bank of America, National Association'']"
  by (simp add: one_broken_financials_loop one_broken_financials_fetch result_names_def
      dataset_def names_of_def)

text \<open>
  A live dataset after one counted exception (inclusion), and one after none (equality).
\<close>

theorem dataset_key_sets_witness:
  "\<not> py_truthy (load_cached_data empty_world ''20240101'' ''20240331'') \<and>
   (\<exists>inst fin.
      fst (fetch_data one_broken_financials empty_world roster3 ''20240101'' ''20240331'')
        = Inr (dataset inst fin) \<and>
      set (names_of fin) \<subseteq> set (names_of inst)) \<and>
   api_failures (retry_loop two_unresolved ''20240101'' ''20240331'' roster3 0 max_retries
       (initial_state empty_world)) = 0 \<and>
   (\<exists>inst fin.
      fst (fetch_data two_unresolved empty_world roster3 ''20240101'' ''20240331'')
        = Inr (dataset inst fin) \<and>
      names_of fin = names_of inst)"
proof -
  let ?X = "fetch_data one_broken_financials empty_world roster3 ''20240101'' ''20240331''"
  let ?Y = "fetch_data two_unresolved empty_world roster3 ''20240101'' ''20240331''"
  have miss: "\<not> py_truthy (load_cached_data empty_world ''20240101'' ''20240331'')" by simp
  obtain rx where rx: "fst ?X = Inr rx" using one_broken_financials_fetch by blast
  then have x: "?X = (Inr rx, snd ?X)" by (metis prod.collapse)
  obtain ry where ry: "fst ?Y = Inr ry" using two_unresolved_fetch by blast
  then have y: "?Y = (Inr ry, snd ?Y)" by (metis prod.collapse)
  have zero: "api_failures (retry_loop two_unresolved ''20240101'' ''20240331'' roster3 0 max_retries
       (initial_state empty_world)) = 0"
    by (simp add: two_unresolved_loop)
  from dataset_key_sets[OF miss x] rx
  have a: "\<exists>inst fin. fst ?X = Inr (dataset inst fin) \<and> set (names_of fin) \<subseteq> set (names_of inst)"
    by auto
  from dataset_key_sets[OF miss y] ry zero
  have b: "\<exists>inst fin. fst ?Y = Inr (dataset inst fin) \<and> names_of fin = names_of inst"
    by auto
  from miss a zero b show ?thesis by blast
qed


end
